theory Spec2Isabelle
  imports Main "HOL-Library.Sublist"
begin

section \<open>JavaScript strings\<close>

text \<open>
  The route file \<^verbatim>\<open>src/app/api/youtube/channel/resolve-id/route.ts\<close> works on
  JavaScript strings with \<^verbatim>\<open>includes\<close>, \<^verbatim>\<open>split\<close>, \<^verbatim>\<open>replace\<close>, \<^verbatim>\<open>pop\<close>,
  \<^verbatim>\<open>parseInt\<close> and regular expressions without flags. A string is modelled as a
  \<^typ>\<open>string\<close>, one \<^typ>\<open>char\<close> per code unit (code units below 256).
\<close>

text \<open>\<^verbatim>\<open>s.includes(sub)\<close>: \<^verbatim>\<open>sub\<close> occurs in \<^verbatim>\<open>s\<close> at some position.\<close>

fun js_includes :: "string \<Rightarrow> string \<Rightarrow> bool" where
  "js_includes [] sub = (sub = [])"
| "js_includes (c # cs) sub = (prefix sub (c # cs) \<or> js_includes cs sub)"

text \<open>
  The first occurrence of a separator: the text before it and the text after it,
  \<open>None\<close> when the separator does not occur.
\<close>

fun break_at :: "string \<Rightarrow> string \<Rightarrow> (string \<times> string) option" where
  "break_at sep [] = (if sep = [] then Some ([], []) else None)"
| "break_at sep (c # cs) =
     (if prefix sep (c # cs) then Some ([], drop (length sep) (c # cs))
      else map_option (\<lambda>(a, b). (c # a, b)) (break_at sep cs))"

lemma break_at_shorter:
  "break_at sep s = Some (a, b) \<Longrightarrow> sep \<noteq> [] \<Longrightarrow> length b < length s"
proof (induction s arbitrary: a)
  case Nil
  then show ?case by simp
next
  case (Cons c cs)
  show ?case
  proof (cases "prefix sep (c # cs)")
    case True
    with Cons.prems show ?thesis by auto
  next
    case False
    with Cons.prems obtain a' where "break_at sep cs = Some (a', b)"
      by auto
    with Cons.IH Cons.prems(2) show ?thesis by fastforce
  qed
qed

text \<open>
  \<^verbatim>\<open>s.split(sep)\<close> with a string separator. With the empty separator JavaScript
  returns the code units one by one; otherwise the pieces between the occurrences
  of the separator, found from left to right without overlap.
\<close>

function js_split :: "string \<Rightarrow> string \<Rightarrow> string list" where
  "js_split sep s =
     (if sep = [] then map (\<lambda>c. [c]) s
      else (case break_at sep s of
              None \<Rightarrow> [s]
            | Some (a, b) \<Rightarrow> a # js_split sep b))"
  by pat_completeness auto
termination
  by (relation "measure (\<lambda>(sep, s). length s)") (auto dest: break_at_shorter)

declare js_split.simps [simp del]

text \<open>
  \<^verbatim>\<open>s.replace(pat, rep)\<close> with a string pattern: only the first occurrence is
  replaced. (The replacement strings of the source hold no \<^verbatim>\<open>$\<close>.)
\<close>

definition js_replace :: "string \<Rightarrow> string \<Rightarrow> string \<Rightarrow> string" where
  "js_replace pat rep s =
     (case break_at pat s of None \<Rightarrow> s | Some (a, b) \<Rightarrow> a @ rep @ b)"

text \<open>\<^verbatim>\<open>xs.pop()\<close> read as a value: the last element, \<^verbatim>\<open>undefined\<close> on an empty array.\<close>

definition js_pop :: "'a list \<Rightarrow> 'a option" where
  "js_pop xs = (if xs = [] then None else Some (last xs))"

text \<open>\<^verbatim>\<open>xs[i]\<close> on an array: \<^verbatim>\<open>undefined\<close> out of range.\<close>

definition js_at :: "'a list \<Rightarrow> nat \<Rightarrow> 'a option" where
  "js_at xs i = (if i < length xs then Some (xs ! i) else None)"

text \<open>The decimal numeral of a natural number, as a template literal prints it.\<close>

definition digit_char :: "nat \<Rightarrow> char" where
  "digit_char d = char_of (of_char (CHR ''0'') + d)"

function dec :: "nat \<Rightarrow> string" where
  "dec n = (if n < 10 then [digit_char n] else dec (n div 10) @ [digit_char (n mod 10)])"
  by pat_completeness auto
termination
  by (relation "measure id") auto

declare dec.simps [simp del]

section \<open>JavaScript values\<close>

text \<open>
  What \<^verbatim>\<open>xml2js\<close> hands back is untyped (\<^verbatim>\<open>any\<close>): text, arrays and objects,
  with \<^verbatim>\<open>undefined\<close> for whatever is absent. An object is its list of own
  properties; the first entry of a key is the one that counts.
\<close>

datatype jsval =
    Undefined
  | Null
  | Str string
  | Arr "jsval list"
  | Obj "(string \<times> jsval) list"

text \<open>
  A number as \<^verbatim>\<open>parseInt\<close> returns it: \<^verbatim>\<open>NaN\<close>, an integer that a double
  holds exactly, or the double nearest to an integer beyond \<open>2^53\<close>.
\<close>

datatype jsnumber = NaN | Num int | Nearest int

fun nullish :: "jsval \<Rightarrow> bool" where
  "nullish Undefined = True"
| "nullish Null = True"
| "nullish _ = False"

text \<open>Truthiness, as \<^verbatim>\<open>||\<close> and \<^verbatim>\<open>!\<close> test it.\<close>

fun truthy :: "jsval \<Rightarrow> bool" where
  "truthy Undefined = False"
| "truthy Null = False"
| "truthy (Str s) = (s \<noteq> [])"
| "truthy (Arr xs) = True"
| "truthy (Obj kvs) = True"

definition js_or :: "jsval \<Rightarrow> jsval \<Rightarrow> jsval" where
  "js_or a b = (if truthy a then a else b)"

text \<open>
  Reading a named property and an index of a value that is neither \<^verbatim>\<open>undefined\<close>
  nor \<^verbatim>\<open>null\<close>. None of the names the route reads is a built-in property of
  strings, arrays or objects, so on a string or an array a name gives
  \<^verbatim>\<open>undefined\<close>, and an index of a string gives its code unit as a string.
\<close>

definition own :: "(string \<times> jsval) list \<Rightarrow> string \<Rightarrow> jsval" where
  "own kvs k = (case map_of kvs k of None \<Rightarrow> Undefined | Some v \<Rightarrow> v)"

fun prop_of :: "jsval \<Rightarrow> string \<Rightarrow> jsval" where
  "prop_of (Obj kvs) k = own kvs k"
| "prop_of _ k = Undefined"

fun index_of :: "jsval \<Rightarrow> nat \<Rightarrow> jsval" where
  "index_of (Arr xs) i = (if i < length xs then xs ! i else Undefined)"
| "index_of (Str s) i = (if i < length s then Str [s ! i] else Undefined)"
| "index_of (Obj kvs) i = own kvs (dec i)"
| "index_of _ i = Undefined"

text \<open>
  \<^verbatim>\<open>v.k\<close> and \<^verbatim>\<open>v[i]\<close> throw a TypeError on \<^verbatim>\<open>undefined\<close> and \<^verbatim>\<open>null\<close>
  (\<open>None\<close> here); \<^verbatim>\<open>v?.k\<close> and \<^verbatim>\<open>v?.[i]\<close> give \<^verbatim>\<open>undefined\<close> instead.
\<close>

definition member :: "jsval \<Rightarrow> string \<Rightarrow> jsval option" where
  "member v k = (if nullish v then None else Some (prop_of v k))"

definition elem :: "jsval \<Rightarrow> nat \<Rightarrow> jsval option" where
  "elem v i = (if nullish v then None else Some (index_of v i))"

definition opt_member :: "jsval \<Rightarrow> string \<Rightarrow> jsval" where
  "opt_member v k = (if nullish v then Undefined else prop_of v k)"

definition opt_elem :: "jsval \<Rightarrow> nat \<Rightarrow> jsval" where
  "opt_elem v i = (if nullish v then Undefined else index_of v i)"

text \<open>\<^verbatim>\<open>xs.join(",")\<close> on strings.\<close>

fun join_comma :: "string list \<Rightarrow> string" where
  "join_comma [] = []"
| "join_comma [s] = s"
| "join_comma (s # t # ss) = s @ '','' @ join_comma (t # ss)"

text \<open>
  \<^verbatim>\<open>ToString\<close>, which \<^verbatim>\<open>parseInt\<close> applies to its argument: an array is its
  elements joined by commas (\<^verbatim>\<open>undefined\<close> and \<^verbatim>\<open>null\<close> elements as the empty
  string), a plain object is \<^verbatim>\<open>[object Object]\<close>.
\<close>

fun to_string :: "jsval \<Rightarrow> string" where
  "to_string Undefined = ''undefined''"
| "to_string Null = ''null''"
| "to_string (Str s) = s"
| "to_string (Arr xs) = join_comma (map (\<lambda>x. if nullish x then [] else to_string x) xs)"
| "to_string (Obj kvs) = ''[object Object]''"

subsection \<open>parseInt\<close>

text \<open>The white space \<^verbatim>\<open>parseInt\<close> skips, among the code units below 256.\<close>

definition js_space :: "char \<Rightarrow> bool" where
  "js_space c = (of_char c \<in> {9, 10, 11, 12, 13, 32, 160 :: nat})"

definition is_digit :: "char \<Rightarrow> bool" where
  "is_digit c = (of_char (CHR ''0'') \<le> (of_char c :: nat) \<and> (of_char c :: nat) \<le> of_char (CHR ''9''))"

definition digit_val :: "char \<Rightarrow> int" where
  "digit_val c = int (of_char c) - int (of_char (CHR ''0''))"

definition digits_val :: "string \<Rightarrow> int" where
  "digits_val ds = foldl (\<lambda>a c. 10 * a + digit_val c) 0 ds"

definition number_of_int :: "int \<Rightarrow> jsnumber" where
  "number_of_int n = (if \<bar>n\<bar> \<le> 2 ^ 53 then Num n else Nearest n)"

text \<open>
  \<^verbatim>\<open>parseInt(s, 10)\<close>: skip leading white space, read one optional sign, then the
  longest run of decimal digits; \<^verbatim>\<open>NaN\<close> when that run is empty. Whatever follows
  the digits is ignored.
\<close>

definition parseInt10 :: "string \<Rightarrow> jsnumber" where
  "parseInt10 s =
     (let t = dropWhile js_space s;
          neg = (t \<noteq> [] \<and> hd t = CHR ''-'');
          u = (if t \<noteq> [] \<and> (hd t = CHR ''-'' \<or> hd t = CHR ''+'') then tl t else t);
          z = takeWhile is_digit u
      in if z = [] then NaN
         else number_of_int (if neg then - digits_val z else digits_val z))"

section \<open>Regular expressions of the HTML Extractor\<close>

text \<open>
  Every pattern of the route is a literal, one capture group that is a run of a
  character class, and a literal tail that starts with a character outside that
  class (or a run of fixed length). A run can then only be the longest one, so
  no backtracking is needed: the matcher at one position is a chain of literals
  and longest runs, and \<^verbatim>\<open>html.match(re)\<close> is the match at the leftmost position.
\<close>

definition lit :: "string \<Rightarrow> string \<Rightarrow> string option" where
  "lit p s = (if prefix p s then Some (drop (length p) s) else None)"

definition run1 :: "(char \<Rightarrow> bool) \<Rightarrow> string \<Rightarrow> (string \<times> string) option" where
  "run1 P s = (if takeWhile P s = [] then None else Some (takeWhile P s, dropWhile P s))"

fun first_match :: "(string \<Rightarrow> 'a option) \<Rightarrow> string \<Rightarrow> 'a option" where
  "first_match m [] = m []"
| "first_match m (c # cs) = (case m (c # cs) of Some r \<Rightarrow> Some r | None \<Rightarrow> first_match m cs)"

definition dquote :: char where
  "dquote = CHR 0x22"

text \<open>\<^verbatim>\<open>/PRE([^"]+)"/\<close> at one position: the capture.\<close>

definition quoted_at :: "string \<Rightarrow> string \<Rightarrow> string option" where
  "quoted_at pre s =
     (case lit pre s of None \<Rightarrow> None
      | Some r \<Rightarrow>
          (case run1 (\<lambda>c. c \<noteq> dquote) r of None \<Rightarrow> None
           | Some (cap, r') \<Rightarrow>
               (case lit [dquote] r' of None \<Rightarrow> None | Some _ \<Rightarrow> Some cap)))"

text \<open>\<^verbatim>\<open>/<meta property="og:url" content="([^"]+)"/\<close>\<close>

definition og_url_re :: "string \<Rightarrow> string option" where
  \<open>og_url_re html = first_match (quoted_at ''<meta property="og:url" content="'') html\<close>

text \<open>\<^verbatim>\<open>[a-zA-Z0-9_-]\<close>\<close>

definition id_char :: "char \<Rightarrow> bool" where
  "id_char c =
     (let n = (of_char c :: nat)
      in (97 \<le> n \<and> n \<le> 122) \<or> (65 \<le> n \<and> n \<le> 90) \<or> (48 \<le> n \<and> n \<le> 57)
         \<or> c = CHR ''_'' \<or> c = CHR ''-'')"

text \<open>The stable channel-ID shape \<^verbatim>\<open>UC[a-zA-Z0-9_-]{22}\<close>: 24 characters.\<close>

definition stable_id :: "string \<Rightarrow> bool" where
  "stable_id s = (length s = 24 \<and> take 2 s = ''UC'' \<and> list_all id_char (drop 2 s))"

text \<open>\<^verbatim>\<open>/"channelId":"(UC[a-zA-Z0-9_-]{22})"/\<close> at one position.\<close>

definition channel_id_at :: "string \<Rightarrow> string option" where
  \<open>channel_id_at s =
     (case lit ''"channelId":"'' s of None \<Rightarrow> None
      | Some r \<Rightarrow>
          if stable_id (take 24 r) \<and> lit [dquote] (drop 24 r) \<noteq> None
          then Some (take 24 r) else None)\<close>

definition channel_id_re :: "string \<Rightarrow> string option" where
  "channel_id_re html = first_match channel_id_at html"

text \<open>\<^verbatim>\<open>/<title>([^<]+)<\/title>/\<close> at one position.\<close>

definition title_elem_at :: "string \<Rightarrow> string option" where
  "title_elem_at s =
     (case lit ''<title>'' s of None \<Rightarrow> None
      | Some r \<Rightarrow>
          (case run1 (\<lambda>c. c \<noteq> CHR ''<'') r of None \<Rightarrow> None
           | Some (cap, r') \<Rightarrow>
               (case lit ''</title>'' r' of None \<Rightarrow> None | Some _ \<Rightarrow> Some cap)))"

text \<open>
  \<^verbatim>\<open>/"thumbnails":\[\{"url":"([^"]+)","width":\d+,"height":\d+\}\]/\<close> at one
  position.
\<close>

definition sized_thumbnail_at :: "string \<Rightarrow> string option" where
  \<open>sized_thumbnail_at s =
     (case lit ''"thumbnails":[{"url":"'' s of None \<Rightarrow> None
      | Some r \<Rightarrow>
      (case run1 (\<lambda>c. c \<noteq> dquote) r of None \<Rightarrow> None
       | Some (cap, r1) \<Rightarrow>
       (case lit ''","width":'' r1 of None \<Rightarrow> None
        | Some r2 \<Rightarrow>
        (case run1 is_digit r2 of None \<Rightarrow> None
         | Some (w, r3) \<Rightarrow>
         (case lit '',"height":'' r3 of None \<Rightarrow> None
          | Some r4 \<Rightarrow>
          (case run1 is_digit r4 of None \<Rightarrow> None
           | Some (h, r5) \<Rightarrow>
           (case lit ''}]'' r5 of None \<Rightarrow> None | Some _ \<Rightarrow> Some cap)))))))\<close>

text \<open>The pattern lists of lines 185-189 and 201-205, in the source's order.\<close>

definition titlePatterns :: "(string \<Rightarrow> string option) list" where
  \<open>titlePatterns =
     [first_match (quoted_at ''<meta name="title" content="''),
      first_match (quoted_at ''<meta property="og:title" content="''),
      first_match title_elem_at]\<close>

definition thumbnailPatterns :: "(string \<Rightarrow> string option) list" where
  \<open>thumbnailPatterns =
     [first_match (quoted_at ''"avatar":{"thumbnails":[{"url":"''),
      first_match (quoted_at ''<meta property="og:image" content="''),
      first_match sized_thumbnail_at]\<close>

text \<open>
  \<^verbatim>\<open>for (const pattern of patterns) { const match = html.match(pattern); if (match)
  { ...; break; } }\<close>: the capture of the first pattern that matches.
\<close>

fun first_pattern :: "(string \<Rightarrow> string option) list \<Rightarrow> string \<Rightarrow> string option" where
  "first_pattern [] html = None"
| "first_pattern (p # ps) html =
     (case p html of Some cap \<Rightarrow> Some cap | None \<Rightarrow> first_pattern ps html)"

section \<open>Results, errors and the outside world\<close>

text \<open>
  The \<^verbatim>\<open>data\<close> object every strategy returns. The Feed Fetcher fills it with
  untyped values of the parsed feed, so the fields are \<^typ>\<open>jsval\<close>;
  \<^verbatim>\<open>viewCount\<close> is a number or \<^verbatim>\<open>null\<close> (\<open>None\<close>).
\<close>

record channel_data =
  author :: jsval
  uri :: jsval
  title :: jsval
  thumbnail :: jsval
  viewCount :: "jsnumber option"
  lastVideoId :: jsval
  lastVideoDate :: jsval
  channelId :: jsval

record strategy_result =
  success :: bool
  data :: channel_data

text \<open>
  What a \<^verbatim>\<open>throw\<close> carries: an \<^verbatim>\<open>Error\<close> with its message, or a value that is not
  an \<^verbatim>\<open>Error\<close> and has no \<^verbatim>\<open>message\<close> property.
\<close>

datatype exn = Error string | NonError

text \<open>
  A TypeError of the engine. Its message is engine text; \<^verbatim>\<open>fetchChannelFeed\<close>
  drops whatever it catches, so the message is never read.
\<close>

definition type_error :: exn where
  "type_error = Error ''TypeError''"

text \<open>The message a template literal prints for \<^verbatim>\<open>(error as Error).message\<close>.\<close>

fun message :: "exn \<Rightarrow> string" where
  "message (Error m) = m"
| "message NonError = ''undefined''"

record response =
  status :: nat
  body_text :: "exn + string"

text \<open>\<^verbatim>\<open>response.ok\<close>: a status from 200 to 299.\<close>

definition ok :: "response \<Rightarrow> bool" where
  "ok r = (200 \<le> status r \<and> status r \<le> 299)"

text \<open>
  The options \<^verbatim>\<open>getBrowser\<close> passes to \<^verbatim>\<open>puppeteer.launch\<close>: the development
  options or the production ones, with the executable path (the other fields are
  constants of the source and of \<^verbatim>\<open>@sparticuz/chromium\<close>).
\<close>

datatype launch_options = Development string | Production string

text \<open>
  What \<^verbatim>\<open>page.evaluate\<close> finds in the rendered document: the \<^verbatim>\<open>content\<close> or
  \<^verbatim>\<open>href\<close> attribute of each element queried (\<open>None\<close> when the element or the
  attribute is missing), \<^verbatim>\<open>window.location.href\<close> and \<^verbatim>\<open>document.title\<close>.
\<close>

record document =
  og_url :: "string option"
  canonical_href :: "string option"
  location_href :: string
  og_title :: "string option"
  meta_title :: "string option"
  document_title :: string
  og_image :: "string option"
  meta_thumbnail :: "string option"

text \<open>The page after a navigation.\<close>

record page_state =
  waitForSelectors :: "exn option"
  pageUrl :: string
  pageTitle :: "exn + string"
  evaluate :: "exn + document"

text \<open>
  The collaborators of one resolution call: the process environment, the HTTP
  client, the XML parser and the browser driver. Each operation returns or
  throws; \<open>exn option\<close> is an operation without a result (\<open>None\<close>: it
  returned). \<^verbatim>\<open>goto\<close> gives the status of the response, \<open>None\<close> for a
  \<^verbatim>\<open>null\<close> response.
\<close>

record world =
  node_env :: "string option"
  platform :: string
  fetch :: "string \<Rightarrow> exn + response"
  parseString :: "string \<Rightarrow> exn + jsval"
  launch :: "launch_options \<Rightarrow> exn option"
  newPage :: "exn option"
  setUserAgent :: "exn option"
  setViewport :: "exn option"
  goto :: "string \<Rightarrow> exn + nat option"
  page :: "string \<Rightarrow> page_state"
  close :: "exn option"

text \<open>
  The calls a resolution makes, in order. \<open>CallFeed\<close>, \<open>CallHtml\<close> and
  \<open>CallScrape\<close> record the entry into a strategy with its argument; the others
  are the outbound operations.
\<close>

datatype event =
    CallFeed string
  | CallHtml string
  | CallScrape string
  | Fetch string
  | Launch launch_options
  | NewPage
  | SetUserAgent
  | SetViewport
  | Goto string
  | WaitForSelectors
  | PageTitle
  | Evaluate
  | Close

text \<open>
  An \<^verbatim>\<open>async\<close> computation: the calls it made and how it ended, with a thrown
  value on the left and the returned value on the right.
\<close>

type_synonym 'a comp = "event list \<times> (exn + 'a)"

definition ret :: "'a \<Rightarrow> 'a comp" where
  "ret a = ([], Inr a)"

definition throw :: "exn \<Rightarrow> 'a comp" where
  "throw e = ([], Inl e)"

definition await :: "event \<Rightarrow> exn + 'a \<Rightarrow> 'a comp" where
  "await ev r = ([ev], r)"

definition unit_of :: "exn option \<Rightarrow> exn + unit" where
  "unit_of r = (case r of None \<Rightarrow> Inr () | Some e \<Rightarrow> Inl e)"

definition bnd :: "'a comp \<Rightarrow> ('a \<Rightarrow> 'b comp) \<Rightarrow> 'b comp" where
  "bnd m f =
     (case m of
        (t, Inl e) \<Rightarrow> (t, Inl e)
      | (t, Inr a) \<Rightarrow> (case f a of (t', r) \<Rightarrow> (t @ t', r)))"

text \<open>\<^verbatim>\<open>try { m } catch (error) { h error }\<close>\<close>

definition try_catch :: "'a comp \<Rightarrow> (exn \<Rightarrow> 'a comp) \<Rightarrow> 'a comp" where
  "try_catch m h =
     (case m of
        (t, Inl e) \<Rightarrow> (case h e of (t', r) \<Rightarrow> (t @ t', r))
      | (t, Inr a) \<Rightarrow> (t, Inr a))"

text \<open>
  \<^verbatim>\<open>try { m } finally { fin }\<close>: \<^verbatim>\<open>fin\<close> runs however \<^verbatim>\<open>m\<close> ended, and what it
  throws replaces the outcome of \<^verbatim>\<open>m\<close>.
\<close>

definition try_finally :: "'a comp \<Rightarrow> unit comp \<Rightarrow> 'a comp" where
  "try_finally m fin =
     (case m of (t, r) \<Rightarrow>
        (case fin of
           (t', Inl e) \<Rightarrow> (t @ t', Inl e)
         | (t', Inr u) \<Rightarrow> (t @ t', r)))"

section \<open>Browser Scraper\<close>

text \<open>\<^verbatim>\<open>getBrowser\<close>, lines 5-31.\<close>

definition getBrowser :: "world \<Rightarrow> unit comp" where
  "getBrowser w =
     (if node_env w = Some ''development''
      then (let opts = Development
                  (if platform w = ''win32''
                   then ''C:'' @ [CHR 0x5C] @ ''Program Files'' @ [CHR 0x5C] @ ''Google''
                        @ [CHR 0x5C] @ ''Chrome'' @ [CHR 0x5C] @ ''Application''
                        @ [CHR 0x5C] @ ''chrome.exe''
                   else if platform w = ''darwin''
                   then ''/Applications/Google Chrome.app/Contents/MacOS/Google Chrome''
                   else ''/usr/bin/google-chrome'')
            in await (Launch opts) (unit_of (launch w opts)))
      else (let opts = Production ''/snap/bin/chromium''
            in await (Launch opts) (unit_of (launch w opts))))"

text \<open>
  \<^verbatim>\<open>url.split("/channel/")[1].split("/")[0]\<close> (lines 75, 122 and 169). \<open>None\<close> is
  the TypeError of calling \<^verbatim>\<open>split\<close> on \<^verbatim>\<open>undefined\<close>, when the first split has
  one piece only.
\<close>

definition channel_segment :: "string \<Rightarrow> jsval option" where
  "channel_segment url =
     (case js_at (js_split ''/channel/'' url) 1 of
        None \<Rightarrow> None
      | Some seg \<Rightarrow>
          (case js_at (js_split ''/'' seg) 0 of
             None \<Rightarrow> Some Undefined
           | Some s \<Rightarrow> Some (Str s)))"

text \<open>\<^verbatim>\<open>url.split("/").pop()\<close> (lines 123 and 302).\<close>

definition last_segment :: "string \<Rightarrow> jsval" where
  "last_segment url =
     (case js_pop (js_split ''/'' url) of None \<Rightarrow> Undefined | Some s \<Rightarrow> Str s)"

text \<open>\<^verbatim>\<open>a || b\<close> on attribute values that may be missing.\<close>

definition attr_or :: "string option \<Rightarrow> string option \<Rightarrow> string option" where
  "attr_or a b = (if a \<noteq> None \<and> a \<noteq> Some [] then a else b)"

definition attr_or_str :: "string option \<Rightarrow> string \<Rightarrow> string" where
  "attr_or_str a b = (case a of None \<Rightarrow> b | Some s \<Rightarrow> if s = [] then b else s)"

text \<open>\<^verbatim>\<open>s || channelName\<close> on strings.\<close>

definition str_or :: "string \<Rightarrow> string \<Rightarrow> string" where
  "str_or s d = (if s = [] then d else s)"

text \<open>The callback of \<^verbatim>\<open>page.evaluate\<close>, lines 95-114: \<^verbatim>\<open>{ url, title, image }\<close>.\<close>

record channel_info =
  info_url :: string
  info_title :: string
  info_image :: "string option"

definition channelInfo_of :: "document \<Rightarrow> channel_info" where
  "channelInfo_of d =
     \<lparr>info_url = attr_or_str (og_url d) (attr_or_str (canonical_href d) (location_href d)),
      info_title = attr_or_str (og_title d) (attr_or_str (meta_title d) (document_title d)),
      info_image = attr_or (og_image d) (meta_thumbnail d)\<rparr>"

text \<open>
  Lines 63-92, the inner \<^verbatim>\<open>try\<close>/\<^verbatim>\<open>catch\<close> around the race of the three selector
  waits. It either falls through (\<open>None\<close>), returns from the function with a
  result built from the current URL and the page title (\<open>Some\<close>), or rethrows.
\<close>

definition selector_wait :: "world \<Rightarrow> string \<Rightarrow> strategy_result option comp" where
  "selector_wait w channelName =
     try_catch
       (bnd (await WaitForSelectors
               (unit_of (waitForSelectors (page w (''https://www.youtube.com/@'' @ channelName)))))
          (\<lambda>_. ret None))
       (\<lambda>error.
          let currentUrl = pageUrl (page w (''https://www.youtube.com/@'' @ channelName))
          in if js_includes currentUrl ''/channel/''
             then (case channel_segment currentUrl of
                     None \<Rightarrow> throw type_error
                   | Some channelId' \<Rightarrow>
                       bnd (await PageTitle
                              (pageTitle (page w (''https://www.youtube.com/@'' @ channelName))))
                         (\<lambda>title'. ret (Some
                            \<lparr>success = True,
                             data = \<lparr>author = Str (str_or title' channelName),
                                     uri = Str currentUrl,
                                     title = Str (str_or title' channelName),
                                     thumbnail = Null,
                                     viewCount = Some (Num 0),
                                     lastVideoId = Null,
                                     lastVideoDate = Null,
                                     channelId = channelId'\<rparr>\<rparr>)))
             else throw error)"

text \<open>Lines 94-139: the evaluation of the rendered document and the result.\<close>

definition scrape_evaluate :: "world \<Rightarrow> string \<Rightarrow> strategy_result comp" where
  "scrape_evaluate w channelName =
     bnd (await Evaluate
            (map_sum id channelInfo_of
               (evaluate (page w (''https://www.youtube.com/@'' @ channelName))))) (\<lambda>channelInfo.
     if info_url channelInfo = [] then throw (Error ''Could not find channel URL'')
     else
     (case (if js_includes (info_url channelInfo) ''/channel/''
            then channel_segment (info_url channelInfo)
            else Some (last_segment (info_url channelInfo))) of
        None \<Rightarrow> throw type_error
      | Some channelId' \<Rightarrow>
          ret \<lparr>success = True,
               data = \<lparr>author = Str (str_or (info_title channelInfo) channelName),
                       uri = Str (info_url channelInfo),
                       title = Str (str_or (info_title channelInfo) channelName),
                       thumbnail =
                         (case info_image channelInfo of
                            None \<Rightarrow> Null
                          | Some i \<Rightarrow> if i = [] then Null else Str i),
                       viewCount = Some (Num 0),
                       lastVideoId = Null,
                       lastVideoDate = Null,
                       channelId = channelId'\<rparr>\<rparr>))"

text \<open>The \<^verbatim>\<open>try\<close> block of \<^verbatim>\<open>scrapeChannelInfo\<close>, lines 37-139.\<close>

definition scrape_try :: "world \<Rightarrow> string \<Rightarrow> strategy_result comp" where
  "scrape_try w channelName =
     bnd (await NewPage (unit_of (newPage w))) (\<lambda>_.
     bnd (await SetUserAgent (unit_of (setUserAgent w))) (\<lambda>_.
     bnd (await SetViewport (unit_of (setViewport w))) (\<lambda>_.
     bnd (await (Goto (''https://www.youtube.com/@'' @ channelName))
                (goto w (''https://www.youtube.com/@'' @ channelName))) (\<lambda>response.
     if response = Some 404 then throw (Error (''Channel not found: '' @ channelName))
     else
     bnd (selector_wait w channelName) (\<lambda>early.
       case early of
         Some r \<Rightarrow> ret r
       | None \<Rightarrow> scrape_evaluate w channelName)))))"

text \<open>
  \<^verbatim>\<open>scrapeChannelInfo\<close>, lines 33-148: the browser is acquired before the
  \<^verbatim>\<open>try\<close>; the \<^verbatim>\<open>catch\<close> wraps every error of the block; the \<^verbatim>\<open>finally\<close> closes
  the browser.
\<close>

definition scrapeChannelInfo :: "world \<Rightarrow> string \<Rightarrow> strategy_result comp" where
  "scrapeChannelInfo w channelName =
     bnd (await (CallScrape channelName) (Inr ())) (\<lambda>_.
     bnd (getBrowser w) (\<lambda>browser.
       try_finally
         (try_catch (scrape_try w channelName)
            (\<lambda>error. throw (Error (''Failed to scrape channel info: '' @ message error))))
         (await Close (unit_of (close w)))))"

section \<open>HTML Extractor\<close>

text \<open>
  Lines 164-177: the channel ID from the \<^verbatim>\<open>og:url\<close> meta tag when its value
  holds \<^verbatim>\<open>/channel/\<close>, otherwise from an embedded \<^verbatim>\<open>"channelId":"UC..."\<close> token,
  otherwise the error.
\<close>

definition html_channel_id :: "string \<Rightarrow> exn + jsval" where
  "html_channel_id html =
     (case og_url_re html of
        Some u \<Rightarrow>
          if js_includes u ''/channel/''
          then (case channel_segment u of None \<Rightarrow> Inl type_error | Some c \<Rightarrow> Inr c)
          else (case channel_id_re html of
                  None \<Rightarrow> Inl (Error ''Channel ID not found in page HTML'')
                | Some c \<Rightarrow> Inr (Str c))
      | None \<Rightarrow>
          (case channel_id_re html of
             None \<Rightarrow> Inl (Error ''Channel ID not found in page HTML'')
           | Some c \<Rightarrow> Inr (Str c)))"

text \<open>
  Lines 179-181: \<^verbatim>\<open>ogUrlMatch?.[1] || `https://www.youtube.com/channel/${channelId}`\<close>.
\<close>

definition html_url :: "string \<Rightarrow> jsval \<Rightarrow> string" where
  "html_url html channelId' =
     attr_or_str (og_url_re html) (''https://www.youtube.com/channel/'' @ to_string channelId')"

text \<open>
  Lines 183-197: the title starts as the handle; the first pattern that matches
  sets it to its capture with \<^verbatim>\<open>.replace(" - YouTube", "")\<close> applied.
\<close>

definition html_title :: "string \<Rightarrow> string \<Rightarrow> string" where
  "html_title html channelName =
     (case first_pattern titlePatterns html of
        None \<Rightarrow> channelName
      | Some m \<Rightarrow> js_replace '' - YouTube'' [] m)"

text \<open>Lines 199-213.\<close>

definition html_thumbnail :: "string \<Rightarrow> jsval" where
  "html_thumbnail html =
     (case first_pattern thumbnailPatterns html of None \<Rightarrow> Null | Some m \<Rightarrow> Str m)"

text \<open>
  \<^verbatim>\<open>extractChannelIdFromHtml\<close>, lines 150-250. The subscriber match of lines
  216-220 feeds the log line only and is left out, as every \<^verbatim>\<open>console\<close> call is.
  The \<^verbatim>\<open>catch\<close> rethrows what it caught.
\<close>

definition extractChannelIdFromHtml :: "world \<Rightarrow> string \<Rightarrow> strategy_result comp" where
  "extractChannelIdFromHtml w channelName =
     bnd (await (CallHtml channelName) (Inr ())) (\<lambda>_.
     try_catch
       (bnd (await (Fetch (''https://www.youtube.com/@'' @ channelName))
                   (fetch w (''https://www.youtube.com/@'' @ channelName))) (\<lambda>response.
        if status response = 404
        then throw (Error (''Channel not found: '' @ channelName))
        else if \<not> ok response
        then throw (Error (''Failed to fetch channel page: '' @ dec (status response)))
        else
        bnd ([], body_text response) (\<lambda>html.
        bnd ([], html_channel_id html) (\<lambda>channelId'.
        ret \<lparr>success = True,
             data = \<lparr>author = Str (html_title html channelName),
                     uri = Str (html_url html channelId'),
                     title = Str (html_title html channelName),
                     thumbnail = html_thumbnail html,
                     viewCount = None,
                     lastVideoId = Null,
                     lastVideoDate = Null,
                     channelId = channelId'\<rparr>\<rparr>))))
       (\<lambda>error. throw error))"

section \<open>Feed Fetcher and orchestration\<close>

text \<open>
  \<^verbatim>\<open>const latestEntry = result.feed.entry?.[1]\<close>, line 280. \<open>None\<close> is the
  TypeError of reading a property of \<^verbatim>\<open>undefined\<close> or \<^verbatim>\<open>null\<close>.
\<close>

definition latestEntry_of :: "jsval \<Rightarrow> jsval option" where
  "latestEntry_of result =
     Option.bind (member result ''feed'') (\<lambda>feed.
     Option.bind (member feed ''entry'') (\<lambda>entry.
     Some (opt_elem entry 1)))"

text \<open>Lines 287-289.\<close>

definition entry_thumbnail :: "jsval \<Rightarrow> jsval" where
  "entry_thumbnail latestEntry =
     js_or (opt_member (opt_member (opt_elem (opt_member (opt_elem
              (opt_member latestEntry ''media:group'') 0) ''media:thumbnail'') 0) ''$'') ''url'')
       Null"

text \<open>
  Lines 292-295: the \<^verbatim>\<open>views\<close> attribute of the statistics element, reached by
  optional chaining, or the string \<^verbatim>\<open>"0"\<close>.
\<close>

definition statistics_views :: "jsval \<Rightarrow> jsval" where
  "statistics_views latestEntry =
     opt_member (opt_member (opt_elem (opt_member (opt_elem (opt_member (opt_elem
       (opt_member latestEntry ''media:group'') 0) ''media:community'') 0)
       ''media:statistics'') 0) ''$'') ''views''"

definition entry_views :: "jsval \<Rightarrow> jsval" where
  "entry_views latestEntry = js_or (statistics_views latestEntry) (Str ''0'')"

text \<open>Lines 297-298.\<close>

definition entry_videoId :: "jsval \<Rightarrow> jsval" where
  "entry_videoId latestEntry = opt_elem (opt_member latestEntry ''yt:videoId'') 0"

definition entry_published :: "jsval \<Rightarrow> jsval" where
  "entry_published latestEntry = opt_elem (opt_member latestEntry ''published'') 0"

text \<open>
  \<^verbatim>\<open>uri.split("/").pop()\<close>, line 302. \<^verbatim>\<open>uri.split\<close> is a function only when
  \<^verbatim>\<open>uri\<close> is a string; on anything else the call is a TypeError (\<open>None\<close>).
\<close>

definition channelIdOnly_of :: "jsval \<Rightarrow> jsval option" where
  "channelIdOnly_of uri' = (case uri' of Str u \<Rightarrow> Some (last_segment u) | _ \<Rightarrow> None)"

text \<open>Lines 279-316, from the parsed feed to the returned object.\<close>

definition feed_result :: "jsval \<Rightarrow> strategy_result option" where
  "feed_result result =
     Option.bind (latestEntry_of result) (\<lambda>latestEntry.
     Option.bind (member result ''feed'') (\<lambda>feed.
     Option.bind (member feed ''author'') (\<lambda>authors.
     Option.bind (elem authors 0) (\<lambda>author0.
     Option.bind (member author0 ''name'') (\<lambda>names.
     Option.bind (elem names 0) (\<lambda>author'.
     Option.bind (member author0 ''uri'') (\<lambda>uris.
     Option.bind (elem uris 0) (\<lambda>uri'.
     Option.bind (member feed ''title'') (\<lambda>titles.
     Option.bind (elem titles 0) (\<lambda>title'.
     Option.bind (channelIdOnly_of uri') (\<lambda>channelIdOnly.
       Some \<lparr>success = True,
             data = \<lparr>author = author',
                     uri = uri',
                     title = title',
                     thumbnail = entry_thumbnail latestEntry,
                     viewCount = Some (parseInt10 (to_string (entry_views latestEntry))),
                     lastVideoId = entry_videoId latestEntry,
                     lastVideoDate = entry_published latestEntry,
                     channelId = channelIdOnly\<rparr>\<rparr>)))))))))))"

text \<open>
  The fallback block, written twice in the source (lines 263-268 and 321-327):
  \<^verbatim>\<open>try { return await extractChannelIdFromHtml(name) } catch { return await
  scrapeChannelInfo(name) }\<close>.
\<close>

definition fallback :: "world \<Rightarrow> string \<Rightarrow> strategy_result comp" where
  "fallback w name =
     try_catch (extractChannelIdFromHtml w name) (\<lambda>_. scrapeChannelInfo w name)"

text \<open>
  \<^verbatim>\<open>fetchChannelFeed\<close>, lines 252-329. The fallback block of the 404 branch
  stands inside the outer \<^verbatim>\<open>try\<close>, and \<^verbatim>\<open>return await\<close> there throws inside it.
\<close>

definition fetchChannelFeed :: "world \<Rightarrow> string \<Rightarrow> strategy_result comp" where
  "fetchChannelFeed w channelName =
     bnd (await (CallFeed channelName) (Inr ())) (\<lambda>_.
     try_catch
       (let channelNameWithoutAt = js_replace ''@'' [] channelName
        in bnd (await (Fetch (''https://www.youtube.com/feeds/videos.xml?user='' @ channelNameWithoutAt))
                      (fetch w (''https://www.youtube.com/feeds/videos.xml?user='' @ channelNameWithoutAt)))
             (\<lambda>response.
                if status response = 404
                then fallback w channelNameWithoutAt
                else if \<not> ok response
                then throw (Error (''Failed to fetch feed: '' @ dec (status response)))
                else
                bnd ([], body_text response) (\<lambda>data'.
                bnd ([], parseString w data') (\<lambda>result.
                (case feed_result result of
                   None \<Rightarrow> throw type_error
                 | Some r \<Rightarrow> ret r)))))
       (\<lambda>error. fallback w channelName))"

section \<open>The HTTP handler\<close>

text \<open>
  The JSON body of the response: the \<^verbatim>\<open>data\<close> object of the result, or
  \<^verbatim>\<open>{ success: false, error }\<close>.
\<close>

datatype json_body = DataBody channel_data | FailureBody string

text \<open>
  \<^verbatim>\<open>GET\<close>, lines 331-350. The request is the list of its decoded query
  parameters; \<^verbatim>\<open>searchParams.get\<close> gives the first value of a name, \<^verbatim>\<open>null\<close>
  when there is none.
\<close>

definition GET :: "world \<Rightarrow> (string \<times> string) list \<Rightarrow> event list \<times> json_body" where
  "GET w searchParams =
     (case map_of searchParams ''channelName'' of
        None \<Rightarrow> ([], FailureBody ''Channel name is required'')
      | Some channelName \<Rightarrow>
          if channelName = [] then ([], FailureBody ''Channel name is required'')
          else (case fetchChannelFeed w channelName of
                  (t, Inr result) \<Rightarrow> (t, DataBody (data result))
                | (t, Inl error) \<Rightarrow>
                    (t, FailureBody
                          (case error of
                             Error m \<Rightarrow> m
                           | NonError \<Rightarrow> ''Failed to fetch channel info''))))"

section \<open>Example worlds\<close>

text \<open>A handle that names no channel: every request and the navigation answer 404.\<close>

definition not_found_response :: response where
  "not_found_response = \<lparr>status = 404, body_text = Inr []\<rparr>"

definition blank_page :: page_state where
  "blank_page =
     \<lparr>waitForSelectors = None, pageUrl = [], pageTitle = Inr [], evaluate = Inl NonError\<rparr>"

definition world_no_channel :: world where
  "world_no_channel =
     \<lparr>node_env = Some ''production'', platform = ''linux'',
      fetch = (\<lambda>url. Inr not_found_response),
      parseString = (\<lambda>s. Inl NonError),
      launch = (\<lambda>opts. None),
      newPage = None, setUserAgent = None, setViewport = None,
      goto = (\<lambda>url. Inr (Some 404)),
      page = (\<lambda>url. blank_page),
      close = None\<rparr>"

text \<open>A world that serves one feed response, one parse result and one channel page.\<close>

definition ok_response :: "string \<Rightarrow> response" where
  "ok_response body = \<lparr>status = 200, body_text = Inr body\<rparr>"

definition example_world :: "response \<Rightarrow> jsval \<Rightarrow> response \<Rightarrow> world" where
  "example_world feed_response parsed page_response =
     \<lparr>node_env = Some ''production'', platform = ''linux'',
      fetch = (\<lambda>url. Inr (if prefix ''https://www.youtube.com/feeds/'' url
                             then feed_response else page_response)),
      parseString = (\<lambda>s. Inr parsed),
      launch = (\<lambda>opts. None),
      newPage = None, setUserAgent = None, setViewport = None,
      goto = (\<lambda>url. Inr (Some 200)),
      page = (\<lambda>url. blank_page),
      close = None\<rparr>"

text \<open>Channel pages.\<close>

definition my_channel_html :: string where
  \<open>my_channel_html =
     ''<html><head><meta property="og:url" content="https://www.youtube.com/channel/UCW5wxEjGHWNyatgZe-PU_tA"><title>My Channel - YouTube</title></head></html>''\<close>

definition odd_title_html :: string where
  \<open>odd_title_html =
     ''<html><head><meta property="og:url" content="https://www.youtube.com/channel/UCW5wxEjGHWNyatgZe-PU_tA"><title>Growing - YouTube Tips - YouTube</title></head></html>''\<close>

definition untitled_html :: string where
  \<open>untitled_html = ''<html><script>{"channelId":"UCW5wxEjGHWNyatgZe-PU_tA"}</script></html>''\<close>

text \<open>
  Parsed feeds in the shape \<^verbatim>\<open>xml2js\<close> gives them: every child element is an
  array, attributes sit under \<^verbatim>\<open>$\<close>.
\<close>

definition example_author :: "string \<Rightarrow> (string \<times> jsval) list" where
  "example_author channel_uri =
     [(''name'', Arr [Str ''Some Channel'']), (''uri'', Arr [Str channel_uri])]"

definition example_feed :: "string \<Rightarrow> jsval \<Rightarrow> (string \<times> jsval) list" where
  "example_feed channel_uri entries =
     [(''title'', Arr [Str ''Some Channel'']),
      (''author'', Arr [Obj (example_author channel_uri)]),
      (''entry'', entries)]"

definition example_group :: "string \<Rightarrow> jsval \<Rightarrow> (string \<times> jsval) list" where
  "example_group vid community =
     [(''media:thumbnail'',
         Arr [Obj [(''$'', Obj [(''url'', Str (''https://i.ytimg.com/vi/'' @ vid @ ''/hqdefault.jpg''))])]]),
      (''media:community'', community)]"

definition example_entry :: "string \<Rightarrow> jsval \<Rightarrow> jsval" where
  "example_entry vid community =
     Obj [(''yt:videoId'', Arr [Str vid]),
          (''published'', Arr [Str ''2024-01-01T00:00:00+00:00'']),
          (''media:group'', Arr [Obj (example_group vid community)])]"

definition community_with_views :: "string \<Rightarrow> jsval" where
  "community_with_views v =
     Arr [Obj [(''media:statistics'', Arr [Obj [(''$'', Obj [(''views'', Str v)])]])]]"

definition community_without_statistics :: jsval where
  "community_without_statistics = Arr [Obj [(''media:starRating'', Arr [Str []])]]"

definition feed_world :: "string \<Rightarrow> jsval \<Rightarrow> world" where
  "feed_world channel_uri entries =
     example_world (ok_response ''<feed/>'')
       (Obj [(''feed'', Obj (example_feed channel_uri entries))])
       not_found_response"

definition stable_uri :: string where
  "stable_uri = ''https://www.youtube.com/channel/UCW5wxEjGHWNyatgZe-PU_tA''"

text \<open>Worlds for the Browser Scraper: the outcome of the launch and the page it finds.\<close>

definition rendered_page :: page_state where
  "rendered_page =
     \<lparr>waitForSelectors = None,
      pageUrl = ''https://www.youtube.com/@somechannel'',
      pageTitle = Inr ''Some Channel - YouTube'',
      evaluate = Inr \<lparr>og_url = Some ''https://www.youtube.com/channel/UCW5wxEjGHWNyatgZe-PU_tA'',
                      canonical_href = None,
                      location_href = ''https://www.youtube.com/@somechannel'',
                      og_title = Some ''Some Channel'',
                      meta_title = None,
                      document_title = ''Some Channel - YouTube'',
                      og_image = None,
                      meta_thumbnail = None\<rparr>\<rparr>"

definition timeout_page :: page_state where
  "timeout_page =
     \<lparr>waitForSelectors = Some (Error ''Waiting for selector failed: 15000ms exceeded''),
      pageUrl = ''https://www.youtube.com/@somechannel'',
      pageTitle = Inr [],
      evaluate = Inl NonError\<rparr>"

definition browser_world :: "exn option \<Rightarrow> page_state \<Rightarrow> world" where
  "browser_world launched p =
     \<lparr>node_env = Some ''production'', platform = ''linux'',
      fetch = (\<lambda>url. Inr not_found_response),
      parseString = (\<lambda>s. Inl NonError),
      launch = (\<lambda>opts. launched),
      newPage = None, setUserAgent = None, setViewport = None,
      goto = (\<lambda>url. Inr (Some 200)),
      page = (\<lambda>url. p),
      close = None\<rparr>"

definition server_error_response :: response where
  "server_error_response = \<lparr>status = 500, body_text = Inr []\<rparr>"

text \<open>Pages and documents whose URL carries more than the channel ID.\<close>

definition query_html :: string where
  \<open>query_html =
     ''<html><head><meta property="og:url" content="https://www.youtube.com/channel/UCW5wxEjGHWNyatgZe-PU_tA?view=0"><title>Some Channel - YouTube</title></head></html>''\<close>

definition featured_document :: document where
  "featured_document =
     \<lparr>og_url = Some ''https://www.youtube.com/channel/UCW5wxEjGHWNyatgZe-PU_tA/featured'',
      canonical_href = None,
      location_href = ''https://www.youtube.com/@somechannel'',
      og_title = Some ''Some Channel'',
      meta_title = None,
      document_title = ''Some Channel - YouTube'',
      og_image = None,
      meta_thumbnail = None\<rparr>"

definition featured_page :: page_state where
  "featured_page =
     \<lparr>waitForSelectors = None,
      pageUrl = ''https://www.youtube.com/channel/UCW5wxEjGHWNyatgZe-PU_tA/featured'',
      pageTitle = Inr ''Some Channel - YouTube'',
      evaluate = Inr featured_document\<rparr>"

definition query_page :: page_state where
  "query_page =
     \<lparr>waitForSelectors = None,
      pageUrl = ''https://www.youtube.com/channel/UCW5wxEjGHWNyatgZe-PU_tA?view=0'',
      pageTitle = Inr ''Some Channel - YouTube'',
      evaluate = Inr (featured_document
        \<lparr>og_url := Some ''https://www.youtube.com/channel/UCW5wxEjGHWNyatgZe-PU_tA?view=0''\<rparr>)\<rparr>"

definition redirected_page :: page_state where
  "redirected_page =
     \<lparr>waitForSelectors = Some (Error ''Waiting for selector failed: 15000ms exceeded''),
      pageUrl = ''https://www.youtube.com/channel/UCW5wxEjGHWNyatgZe-PU_tA/featured'',
      pageTitle = Inr ''Some Channel - YouTube'',
      evaluate = Inl NonError\<rparr>"

text \<open>
  A handle that names no channel, with a feed endpoint that answers 500 instead
  of 404.
\<close>

definition world_feed_error :: world where
  "world_feed_error =
     world_no_channel
       \<lparr>fetch := (\<lambda>url. Inr (if prefix ''https://www.youtube.com/feeds/'' url
                                 then server_error_response else not_found_response))\<rparr>"

section \<open>Facts about the string operations\<close>

lemma break_at_sound: "break_at sep s = Some (a, b) \<Longrightarrow> s = a @ sep @ b"
proof (induction s arbitrary: a)
  case Nil
  then show ?case by (simp split: if_splits)
next
  case (Cons c cs)
  show ?case
  proof (cases "prefix sep (c # cs)")
    case True
    with Cons.prems show ?thesis by (auto simp: prefix_def)
  next
    case False
    with Cons.prems obtain a' where "break_at sep cs = Some (a', b)" "a = c # a'"
      by auto
    with Cons.IH show ?thesis by simp
  qed
qed

lemma prefix_overlap:
  assumes "prefix sep (X @ sep @ b)" "X \<noteq> []"
  shows "prefix sep (X @ butlast sep)"
proof (cases "sep = []")
  case True
  then show ?thesis by simp
next
  case False
  have "length sep \<le> length (X @ butlast sep)" using assms(2) by (cases X) auto
  moreover have "take (length sep) (X @ sep @ b) = sep"
  proof -
    from assms(1) obtain zs where "X @ sep @ b = sep @ zs" by (auto simp: prefix_def)
    then have "take (length sep) (X @ sep @ b) = take (length sep) (sep @ zs)" by simp
    then show ?thesis by simp
  qed
  moreover have "X @ sep @ b = (X @ butlast sep) @ (last sep # b)" using False by simp
  ultimately have "take (length sep) (X @ butlast sep) = sep"
    by (metis append_eq_conv_conj append_take_drop_id take_all_iff take_append)
  then show ?thesis by (metis take_is_prefix)
qed

lemma break_at_first:
  "sep \<noteq> [] \<Longrightarrow> \<not> js_includes (pre @ butlast sep) sep \<Longrightarrow>
   break_at sep (pre @ sep @ b) = Some (pre, b)"
proof (induction pre)
  case Nil
  then show ?case by (cases sep) auto
next
  case (Cons p ps)
  from Cons.prems(2) have np: "\<not> prefix sep ((p # ps) @ butlast sep)"
    and ni: "\<not> js_includes (ps @ butlast sep) sep" by auto
  from np have "\<not> prefix sep ((p # ps) @ sep @ b)"
    using prefix_overlap [of sep "p # ps" b] by blast
  with Cons.IH [OF Cons.prems(1) ni] show ?case by simp
qed

lemma takeWhile_not_mem: "c \<notin> set s \<Longrightarrow> takeWhile (\<lambda>x. x \<noteq> c) s = s"
  by (induction s) auto

lemma break_at_char:
  "break_at [c] s =
     (if c \<in> set s then Some (takeWhile (\<lambda>x. x \<noteq> c) s, tl (dropWhile (\<lambda>x. x \<noteq> c) s))
      else None)"
  by (induction s) auto

lemma js_split_char_first:
  "js_at (js_split [c] s) 0 = Some (takeWhile (\<lambda>x. x \<noteq> c) s)"
  by (subst js_split.simps) (auto simp: break_at_char js_at_def takeWhile_not_mem)

lemma js_split_not_Nil: "sep \<noteq> [] \<Longrightarrow> js_split sep s \<noteq> []"
  by (subst js_split.simps) (auto split: option.splits)

lemma js_split_char_last:
  "js_pop (js_split [c] s) = Some (rev (takeWhile (\<lambda>x. x \<noteq> c) (rev s)))"
proof (induction "[c]" s rule: js_split.induct)
  case (1 s)
  show ?case
  proof (cases "c \<in> set s")
    case False
    then show ?thesis
      by (subst js_split.simps) (simp add: break_at_char js_pop_def takeWhile_not_mem)
  next
    case True
    define a where "a = takeWhile (\<lambda>x. x \<noteq> c) s"
    define b where "b = tl (dropWhile (\<lambda>x. x \<noteq> c) s)"
    have br: "break_at [c] s = Some (a, b)" using True by (simp add: break_at_char a_def b_def)
    then have s: "s = a @ [c] @ b" by (rule break_at_sound)
    have IH: "js_pop (js_split [c] b) = Some (rev (takeWhile (\<lambda>x. x \<noteq> c) (rev b)))"
      using 1 [OF _ br refl] by simp
    have "js_split [c] s = a # js_split [c] b"
      by (subst js_split.simps) (simp add: br)
    then have "js_pop (js_split [c] s) = js_pop (js_split [c] b)"
      using js_split_not_Nil [of "[c]" b] by (simp add: js_pop_def)
    also have "\<dots> = Some (rev (takeWhile (\<lambda>x. x \<noteq> c) (rev b)))" by (rule IH)
    also have "takeWhile (\<lambda>x. x \<noteq> c) (rev b) = takeWhile (\<lambda>x. x \<noteq> c) (rev s)"
      by (subst s) (simp add: takeWhile_append)
    finally show ?thesis .
  qed
qed

lemma takeWhile_stop:
  "takeWhile (\<lambda>x. x \<noteq> c) (a @ c # z) = takeWhile (\<lambda>x. x \<noteq> c) a"
  by (induction a) auto

lemma takeWhile_segment:
  "c \<notin> set seg \<Longrightarrow> rest = [] \<or> hd rest = c \<Longrightarrow>
   takeWhile (\<lambda>x. x \<noteq> c) (seg @ rest) = seg"
  by (cases rest) (auto simp: takeWhile_not_mem takeWhile_stop)

lemma js_split_first_piece:
  assumes "sep \<noteq> []"
  shows "js_at (js_split sep s) 0 =
           Some (case break_at sep s of None \<Rightarrow> s | Some (a, b) \<Rightarrow> a)"
  using assms by (subst js_split.simps) (auto simp: js_at_def split: option.splits)

lemma js_split_second_piece:
  assumes "sep \<noteq> []" and "break_at sep s = Some (a, b)"
  shows "js_at (js_split sep s) 1 = js_at (js_split sep b) 0"
proof -
  have "js_split sep s = a # js_split sep b"
    using assms by (subst js_split.simps) simp
  then show ?thesis by (simp add: js_at_def)
qed

lemma channel_segment_cut:
  assumes first: "\<not> js_includes (pre @ ''/channel'') ''/channel/''"
    and seg: "CHR ''/'' \<notin> set seg"
    and rest: "rest = [] \<or> hd rest = CHR ''/''"
  shows "channel_segment (pre @ ''/channel/'' @ seg @ rest) = Some (Str seg)"
proof -
  let ?sep = "''/channel/''"
  let ?P = "\<lambda>x. x \<noteq> CHR ''/''"
  have br: "break_at ?sep (pre @ ?sep @ (seg @ rest)) = Some (pre, seg @ rest)"
    using first by (intro break_at_first) simp_all
  define x where "x = (case break_at ?sep (seg @ rest) of None \<Rightarrow> seg @ rest | Some (a, b) \<Rightarrow> a)"
  have piece: "js_at (js_split ?sep (pre @ ?sep @ seg @ rest)) 1 = Some x"
    using js_split_second_piece [OF _ br] js_split_first_piece [of ?sep "seg @ rest"]
    by (simp add: x_def)
  have "takeWhile ?P x = seg"
  proof (cases "break_at ?sep (seg @ rest)")
    case None
    then show ?thesis using seg rest by (simp add: x_def takeWhile_segment)
  next
    case (Some ab)
    obtain a b where ab: "ab = (a, b)" by (cases ab)
    with Some have "seg @ rest = a @ ?sep @ b" by (auto dest: break_at_sound)
    then have "takeWhile ?P (seg @ rest) = takeWhile ?P (a @ CHR ''/'' # (''channel/'' @ b))"
      by simp
    also have "\<dots> = takeWhile ?P a" by (rule takeWhile_stop)
    finally show ?thesis using Some ab seg rest by (simp add: x_def takeWhile_segment)
  qed
  then have "js_at (js_split ''/'' x) 0 = Some seg"
    using js_split_char_first [of "CHR ''/''" x] by simp
  with piece show ?thesis by (simp add: channel_segment_def)
qed

lemma last_segment_cut:
  assumes "CHR ''/'' \<notin> set seg"
  shows "last_segment (pre @ ''/'' @ seg) = Str seg"
proof -
  have "takeWhile (\<lambda>x. x \<noteq> CHR ''/'') (rev seg @ CHR ''/'' # rev pre) = rev seg"
    using assms by (simp add: takeWhile_stop takeWhile_not_mem)
  then show ?thesis
    using js_split_char_last [of "CHR ''/''" "pre @ ''/'' @ seg"]
    by (simp add: last_segment_def)
qed

section \<open>Facts about the strategies\<close>

lemma prefix_Cons_append:
  "prefix (a # as) (X @ b) \<longleftrightarrow>
     (X = [] \<and> prefix (a # as) b) \<or> (\<exists>X'. X = a # X' \<and> prefix as (X' @ b))"
  by (cases X) auto

lemma suffix_no_overlap:
  "prefix '' - YouTube'' (X @ '' - YouTub'') \<Longrightarrow> prefix '' - YouTube'' X"
  by (auto simp: prefix_Cons_append)

lemma js_includes_no_overlap:
  "\<not> js_includes name '' - YouTube'' \<Longrightarrow>
   \<not> js_includes (name @ '' - YouTub'') '' - YouTube''"
proof (induction name)
  case Nil
  then show ?case by simp
next
  case (Cons c cs)
  then show ?case using suffix_no_overlap [of "c # cs"] by auto
qed

lemma js_replace_suffix:
  assumes "\<not> js_includes name '' - YouTube''"
  shows "js_replace '' - YouTube'' [] (name @ '' - YouTube'') = name"
proof -
  have "break_at '' - YouTube'' (name @ '' - YouTube'' @ []) = Some (name, [])"
    using js_includes_no_overlap [OF assms] by (intro break_at_first) simp_all
  then show ?thesis by (simp add: js_replace_def)
qed

lemma extractChannelIdFromHtml_Inr:
  assumes "extractChannelIdFromHtml w channelName = (t, Inr r)"
  obtains resp html c where
    "fetch w (''https://www.youtube.com/@'' @ channelName) = Inr resp"
    "body_text resp = Inr html"
    "html_channel_id html = Inr c"
    "r = \<lparr>success = True,
          data = \<lparr>author = Str (html_title html channelName),
                  uri = Str (html_url html c),
                  title = Str (html_title html channelName),
                  thumbnail = html_thumbnail html,
                  viewCount = None,
                  lastVideoId = Null,
                  lastVideoDate = Null,
                  channelId = c\<rparr>\<rparr>"
  using assms
  by (auto simp: extractChannelIdFromHtml_def bnd_def try_catch_def await_def throw_def ret_def
      split: prod.splits sum.splits if_splits)

lemma fetchChannelFeed_parsed:
  assumes "fetch w (''https://www.youtube.com/feeds/videos.xml?user='' @ js_replace ''@'' [] channelName)
             = Inr resp"
    and "ok resp"
    and "body_text resp = Inr xml"
    and "parseString w xml = Inr result"
    and "feed_result result = Some r"
  shows "fetchChannelFeed w channelName =
           ([CallFeed channelName,
             Fetch (''https://www.youtube.com/feeds/videos.xml?user='' @ js_replace ''@'' [] channelName)],
            Inr r)"
proof -
  from assms(2) have "status resp \<noteq> 404" by (auto simp: ok_def)
  with assms show ?thesis
    by (simp add: fetchChannelFeed_def bnd_def try_catch_def await_def ret_def Let_def)
qed

lemma feed_result_shape:
  assumes "own root ''feed'' = Obj feed"
    and "own feed ''author'' = Arr (Obj a # as)"
    and "own a ''name'' = Arr (nm # nms)"
    and "own a ''uri'' = Arr (Str u # us)"
    and "own feed ''title'' = Arr (ttl # ttls)"
  shows "feed_result (Obj root) =
           Some \<lparr>success = True,
                 data = \<lparr>author = nm,
                         uri = Str u,
                         title = ttl,
                         thumbnail = entry_thumbnail (opt_elem (own feed ''entry'') 1),
                         viewCount = Some (parseInt10 (to_string
                                       (entry_views (opt_elem (own feed ''entry'') 1)))),
                         lastVideoId = entry_videoId (opt_elem (own feed ''entry'') 1),
                         lastVideoDate = entry_published (opt_elem (own feed ''entry'') 1),
                         channelId = last_segment u\<rparr>\<rparr>"
  using assms
  by (simp add: feed_result_def latestEntry_of_def member_def elem_def channelIdOnly_of_def)

lemma fetchChannelFeed_fields:
  assumes "fetch w (''https://www.youtube.com/feeds/videos.xml?user='' @ js_replace ''@'' [] channelName)
             = Inr resp"
    and "ok resp"
    and "body_text resp = Inr xml"
    and "parseString w xml = Inr (Obj root)"
    and "own root ''feed'' = Obj feed"
    and "own feed ''author'' = Arr (Obj a # as)"
    and "own a ''name'' = Arr (nm # nms)"
    and "own a ''uri'' = Arr (Str u # us)"
    and "own feed ''title'' = Arr (ttl # ttls)"
    and "opt_elem (own feed ''entry'') 1 = latest"
  shows "fetchChannelFeed w channelName =
           ([CallFeed channelName,
             Fetch (''https://www.youtube.com/feeds/videos.xml?user='' @ js_replace ''@'' [] channelName)],
            Inr \<lparr>success = True,
                 data = \<lparr>author = nm,
                         uri = Str u,
                         title = ttl,
                         thumbnail = entry_thumbnail latest,
                         viewCount = Some (parseInt10 (to_string (entry_views latest))),
                         lastVideoId = entry_videoId latest,
                         lastVideoDate = entry_published latest,
                         channelId = last_segment u\<rparr>\<rparr>)"
  using fetchChannelFeed_parsed [OF assms(1-4) feed_result_shape [OF assms(5-9)]]
  unfolding assms(10) .

lemma parseInt10_zero: "parseInt10 ''0'' = Num 0"
  by code_simp

lemma parseInt10_12345: "parseInt10 ''12345'' = Num 12345"
  by code_simp

lemma parseInt10_NaN:
  assumes "v \<noteq> []" and "\<not> is_digit (hd v)" and "\<not> js_space (hd v)"
    and "hd v \<noteq> CHR ''+''" and "hd v \<noteq> CHR ''-''"
  shows "parseInt10 v = NaN"
proof -
  obtain c cs where v: "v = c # cs" using assms(1) by (cases v) auto
  with assms show ?thesis by (simp add: parseInt10_def)
qed

lemma short_entry_list:
  assumes "entries = Undefined \<or> entries = Arr [] \<or> entries = Arr [e]"
  shows "opt_elem entries 1 = Undefined"
  using assms by (auto simp: opt_elem_def)

lemma entry_fields_Undefined:
  "entry_thumbnail Undefined = Null"
  "to_string (entry_views Undefined) = ''0''"
  "entry_videoId Undefined = Undefined"
  "entry_published Undefined = Undefined"
  by (simp_all add: entry_thumbnail_def entry_views_def statistics_views_def entry_videoId_def
      entry_published_def opt_member_def opt_elem_def js_or_def)

lemma entry_views_cases:
  "statistics_views e = Undefined \<Longrightarrow> to_string (entry_views e) = ''0''"
  "statistics_views e = Str v \<Longrightarrow> v \<noteq> [] \<Longrightarrow> to_string (entry_views e) = v"
  by (simp_all add: entry_views_def js_or_def)

section \<open>Facts about the example worlds\<close>

lemma ok_response_facts:
  "ok (ok_response b)"
  "body_text (ok_response b) = Inr b"
  "status (ok_response b) = 200"
  by (simp_all add: ok_def ok_response_def)

lemma example_world_fetch:
  "fetch (example_world fr parsed pr) (''https://www.youtube.com/feeds/videos.xml?user='' @ n) = Inr fr"
  "fetch (example_world fr parsed pr) (''https://www.youtube.com/@'' @ n) = Inr pr"
  by (simp_all add: example_world_def)

lemma feed_world_fetch:
  "fetch (feed_world u es) (''https://www.youtube.com/feeds/videos.xml?user='' @ n)
     = Inr (ok_response ''<feed/>'')"
  unfolding feed_world_def by (rule example_world_fetch)

lemma feed_world_parse:
  "parseString (feed_world u es) x = Inr (Obj [(''feed'', Obj (example_feed u es))])"
  by (simp add: feed_world_def example_world_def)

lemma example_feed_own:
  "own [(''feed'', Obj f)] ''feed'' = Obj f"
  "own (example_feed u es) ''author'' = Arr [Obj (example_author u)]"
  "own (example_author u) ''name'' = Arr [Str ''Some Channel'']"
  "own (example_author u) ''uri'' = Arr [Str u]"
  "own (example_feed u es) ''title'' = Arr [Str ''Some Channel'']"
  "own (example_feed u es) ''entry'' = es"
  by (simp_all add: own_def example_feed_def example_author_def)

lemma example_entry_views:
  "statistics_views (example_entry vid (community_with_views v)) = Str v"
  "statistics_views (example_entry vid community_without_statistics) = Undefined"
  by (simp_all add: statistics_views_def example_entry_def example_group_def
      community_with_views_def community_without_statistics_def
      opt_member_def opt_elem_def own_def)

section \<open>Facts about the combinators\<close>

lemma bnd_trace:
  assumes "set (fst m) \<subseteq> S" and "\<And>a. set (fst (f a)) \<subseteq> S"
  shows "set (fst (bnd m f)) \<subseteq> S"
proof (cases m)
  case (Pair t r)
  show ?thesis
  proof (cases r)
    case (Inl e)
    with Pair assms(1) show ?thesis by (simp add: bnd_def)
  next
    case (Inr a)
    with Pair assms(1) assms(2) [of a] show ?thesis
      by (cases "f a") (simp add: bnd_def)
  qed
qed

lemma try_catch_trace:
  assumes "set (fst m) \<subseteq> S" and "\<And>e. set (fst (h e)) \<subseteq> S"
  shows "set (fst (try_catch m h)) \<subseteq> S"
proof (cases m)
  case (Pair t r)
  show ?thesis
  proof (cases r)
    case (Inl e)
    with Pair assms(1) assms(2) [of e] show ?thesis
      by (cases "h e") (simp add: try_catch_def)
  next
    case (Inr a)
    with Pair assms(1) show ?thesis by (simp add: try_catch_def)
  qed
qed

lemma simple_traces:
  "fst (ret a) = []"
  "fst (throw e) = []"
  "fst (await ev r) = [ev]"
  by (simp_all add: ret_def throw_def await_def)

lemma try_finally_trace:
  "fst (try_finally m (await ev r)) = fst m @ [ev]"
  by (cases m; cases r) (simp_all add: try_finally_def await_def)

lemma try_finally_result:
  "snd (try_finally m (await ev r)) = (case r of Inl e \<Rightarrow> Inl e | Inr u \<Rightarrow> snd m)"
  by (cases m; cases r) (simp_all add: try_finally_def await_def)



section \<open>Facts about the Browser Scraper\<close>

lemma getBrowser_trace: "\<exists>opts. fst (getBrowser w) = [Launch opts]"
  by (simp add: getBrowser_def await_def Let_def)

lemma if_trace:
  assumes "c \<Longrightarrow> set (fst a) \<subseteq> S" and "\<not> c \<Longrightarrow> set (fst b) \<subseteq> S"
  shows "set (fst (if c then a else b)) \<subseteq> S"
  using assms by simp

lemma case_option_trace:
  assumes "set (fst a) \<subseteq> S" and "\<And>y. set (fst (f y)) \<subseteq> S"
  shows "set (fst (case x of None \<Rightarrow> a | Some y \<Rightarrow> f y)) \<subseteq> S"
  using assms by (cases x) simp_all

lemma selector_wait_trace:
  "set (fst (selector_wait w channelName)) \<subseteq> {WaitForSelectors, PageTitle}"
  unfolding selector_wait_def Let_def
  by (intro bnd_trace try_catch_trace if_trace case_option_trace)
    (simp_all add: simple_traces)

lemma scrape_evaluate_trace:
  "set (fst (scrape_evaluate w channelName)) \<subseteq> {Evaluate}"
  unfolding scrape_evaluate_def
  by (intro bnd_trace if_trace case_option_trace)
    (simp_all add: simple_traces)

lemma scrape_try_trace:
  "set (fst (scrape_try w channelName))
     \<subseteq> {NewPage, SetUserAgent, SetViewport, Goto (''https://www.youtube.com/@'' @ channelName),
         WaitForSelectors, PageTitle, Evaluate}"
  unfolding scrape_try_def
  by (intro bnd_trace if_trace case_option_trace
        subset_trans [OF selector_wait_trace] subset_trans [OF scrape_evaluate_trace])
    (simp_all add: simple_traces)

lemma scrape_try_no_Close: "Close \<notin> set (fst (scrape_try w channelName))"
  using scrape_try_trace [of w channelName] by auto

lemma scrapeChannelInfo_launched:
  assumes "snd (getBrowser w) = Inr ()"
  shows "\<exists>t. fst (scrapeChannelInfo w channelName) = t @ [Close] \<and> Close \<notin> set t"
proof -
  obtain opts where g: "getBrowser w = ([Launch opts], Inr ())"
    using assms getBrowser_trace [of w] by (cases "getBrowser w") auto
  define m where "m = try_catch (scrape_try w channelName)
      (\<lambda>error. throw (Error (''Failed to scrape channel info: '' @ message error)) :: strategy_result comp)"
  have "set (fst m) \<subseteq> set (fst (scrape_try w channelName))"
    unfolding m_def by (intro try_catch_trace) (simp_all add: simple_traces)
  then have nc: "Close \<notin> set (fst m)" using scrape_try_no_Close by blast
  have "scrapeChannelInfo w channelName =
          bnd (await (CallScrape channelName) (Inr ()))
            (\<lambda>_. bnd (getBrowser w) (\<lambda>browser. try_finally m (await Close (unit_of (close w)))))"
    by (simp add: scrapeChannelInfo_def m_def)
  then have "fst (scrapeChannelInfo w channelName)
               = (CallScrape channelName # Launch opts # fst m) @ [Close]"
    using try_finally_trace [of m Close "unit_of (close w)"]
    by (simp add: g bnd_def await_def split: prod.splits)
  with nc show ?thesis by (intro exI [of _ "CallScrape channelName # Launch opts # fst m"]) simp
qed

lemma scrapeChannelInfo_launch_failed:
  assumes "snd (getBrowser w) = Inl e"
  shows "\<exists>opts. scrapeChannelInfo w channelName = ([CallScrape channelName, Launch opts], Inl e)"
proof -
  obtain opts where g: "getBrowser w = ([Launch opts], Inl e)"
    using assms getBrowser_trace [of w] by (cases "getBrowser w") auto
  then show ?thesis by (simp add: scrapeChannelInfo_def bnd_def await_def)
qed

section \<open>Facts about the channel ID of a result\<close>















section \<open>Facts about the orchestration\<close>

lemma try_catch_after_fetch:
  "try_catch (bnd (await ev (Inr a)) f) h
     = bnd ([ev], Inr ()) (\<lambda>_. try_catch (f a) h)"
  by (cases "f a" rule: prod.exhaust)
    (auto simp: try_catch_def bnd_def await_def split: sum.splits prod.splits)

lemma try_catch_fetch_thrown:
  "try_catch (bnd (await ev (Inl e)) f) h = bnd ([ev], Inr ()) (\<lambda>_. h e)"
  by (auto simp: try_catch_def bnd_def await_def split: sum.splits prod.splits)

lemma try_catch_throw: "try_catch (throw e) h = h e"
  by (cases "h e") (simp add: try_catch_def throw_def)

lemma try_catch_settled:
  "try_catch (bnd ([], Inr a) f) h = try_catch (f a) h"
  "try_catch (bnd ([], Inl e) f) h = h e"
  by (cases "f a"; cases "h e"; simp add: try_catch_def bnd_def split: sum.splits)+

lemma bnd_bnd_events:
  "bnd (await ev1 (Inr ())) (\<lambda>_. bnd ([ev2], Inr ()) (\<lambda>_. m)) = bnd ([ev1, ev2], Inr ()) (\<lambda>_. m)"
  by (cases m) (simp add: bnd_def await_def)

lemma fetchChannelFeed_not_found:
  assumes "fetch w (''https://www.youtube.com/feeds/videos.xml?user='' @ js_replace ''@'' [] channelName)
             = Inr resp"
    and "status resp = 404"
  shows "fetchChannelFeed w channelName =
           bnd ([CallFeed channelName,
                 Fetch (''https://www.youtube.com/feeds/videos.xml?user='' @ js_replace ''@'' [] channelName)],
                Inr ())
             (\<lambda>_. try_catch (fallback w (js_replace ''@'' [] channelName))
                    (\<lambda>_. fallback w channelName))"
  unfolding fetchChannelFeed_def Let_def assms(1) try_catch_after_fetch bnd_bnd_events
  using assms(2) by simp

lemma fetchChannelFeed_failed:
  assumes "fetch w (''https://www.youtube.com/feeds/videos.xml?user='' @ js_replace ''@'' [] channelName)
             = Inr resp"
    and "status resp \<noteq> 404"
    and "\<not> ok resp
         \<or> (\<exists>e. body_text resp = Inl e)
         \<or> (\<exists>xml. body_text resp = Inr xml
               \<and> ((\<exists>e. parseString w xml = Inl e)
                    \<or> (\<exists>result. parseString w xml = Inr result \<and> feed_result result = None)))"
  shows "fetchChannelFeed w channelName =
           bnd ([CallFeed channelName,
                 Fetch (''https://www.youtube.com/feeds/videos.xml?user='' @ js_replace ''@'' [] channelName)],
                Inr ())
             (\<lambda>_. fallback w channelName)"
proof -
  have "try_catch
          (if status resp = 404 then fallback w (js_replace ''@'' [] channelName)
           else if \<not> ok resp then throw (Error (''Failed to fetch feed: '' @ dec (status resp)))
           else bnd ([], body_text resp) (\<lambda>data'.
                bnd ([], parseString w data') (\<lambda>result.
                  case feed_result result of None \<Rightarrow> throw type_error | Some r \<Rightarrow> ret r)))
          (\<lambda>error. fallback w channelName)
        = fallback w channelName"
    using assms(2,3)
    by (auto simp: try_catch_throw try_catch_settled)
  then show ?thesis
    unfolding fetchChannelFeed_def Let_def assms(1) try_catch_after_fetch bnd_bnd_events
    by simp
qed

lemma fetchChannelFeed_fetch_thrown:
  assumes "fetch w (''https://www.youtube.com/feeds/videos.xml?user='' @ js_replace ''@'' [] channelName)
             = Inl e"
  shows "fetchChannelFeed w channelName =
           bnd ([CallFeed channelName,
                 Fetch (''https://www.youtube.com/feeds/videos.xml?user='' @ js_replace ''@'' [] channelName)],
                Inr ())
             (\<lambda>_. fallback w channelName)"
  unfolding fetchChannelFeed_def Let_def assms(1) try_catch_fetch_thrown bnd_bnd_events
  by simp

lemma fallback_starts:
  "\<exists>t. fst (fallback w name) = CallHtml name # Fetch (''https://www.youtube.com/@'' @ name) # t"
  by (auto simp: fallback_def extractChannelIdFromHtml_def try_catch_def bnd_def await_def throw_def ret_def
      split: prod.splits sum.splits)

section \<open>Facts about the channel ID cut from a URL\<close>

lemma js_includes_append: "js_includes (pre @ sep @ b) sep"
proof (induction pre)
  case Nil
  show ?case
  proof (cases "sep @ b")
    case Nil
    then show ?thesis by simp
  next
    case (Cons a l)
    then have "prefix sep (a # l)" by (metis prefixI)
    with Cons show ?thesis by simp
  qed
next
  case (Cons p ps)
  then show ?case by simp
qed

lemma html_channel_id_og:
  assumes "og_url_re html = Some (pre @ ''/channel/'' @ seg @ rest)"
    and "\<not> js_includes (pre @ ''/channel'') ''/channel/''"
    and "CHR ''/'' \<notin> set seg"
    and "rest = [] \<or> hd rest = CHR ''/''"
  shows "html_channel_id html = Inr (Str seg)"
  using js_includes_append [of pre "''/channel/''" "seg @ rest"]
    channel_segment_cut [OF assms(2-4)]
  by (simp add: html_channel_id_def assms(1))

lemma extractChannelIdFromHtml_og:
  assumes "fetch w (''https://www.youtube.com/@'' @ channelName) = Inr resp"
    and "ok resp"
    and "body_text resp = Inr html"
    and "html_channel_id html = Inr c"
  shows "\<exists>t r. extractChannelIdFromHtml w channelName = (t, Inr r) \<and> channelId (data r) = c"
proof -
  from assms(2) have "status resp \<noteq> 404" by (auto simp: ok_def)
  with assms show ?thesis
    by (simp add: extractChannelIdFromHtml_def bnd_def try_catch_def await_def ret_def)
qed

lemma scrape_try_evaluated:
  assumes "newPage w = None" and "setUserAgent w = None" and "setViewport w = None"
    and "goto w (''https://www.youtube.com/@'' @ channelName) = Inr st"
    and "st \<noteq> Some 404"
    and "waitForSelectors (page w (''https://www.youtube.com/@'' @ channelName)) = None"
    and "evaluate (page w (''https://www.youtube.com/@'' @ channelName)) = Inr d"
    and "info_url (channelInfo_of d) = u"
    and "js_includes u ''/channel/''"
    and "channel_segment u = Some c"
  shows "\<exists>t r. scrape_try w channelName = (t, Inr r) \<and> channelId (data r) = c"
  using assms js_includes.simps(1)
  by (cases u)
    (simp_all add: scrape_try_def selector_wait_def scrape_evaluate_def bnd_def try_catch_def
      await_def ret_def unit_of_def)

lemma scrape_try_timed_out:
  assumes "newPage w = None" and "setUserAgent w = None" and "setViewport w = None"
    and "goto w (''https://www.youtube.com/@'' @ channelName) = Inr st"
    and "st \<noteq> Some 404"
    and "waitForSelectors (page w (''https://www.youtube.com/@'' @ channelName)) = Some e"
    and "pageUrl (page w (''https://www.youtube.com/@'' @ channelName)) = u"
    and "pageTitle (page w (''https://www.youtube.com/@'' @ channelName)) = Inr ttl"
    and "js_includes u ''/channel/''"
    and "channel_segment u = Some c"
  shows "\<exists>t r. scrape_try w channelName = (t, Inr r) \<and> channelId (data r) = c"
  using assms
  by (simp add: scrape_try_def selector_wait_def bnd_def try_catch_def
      await_def ret_def unit_of_def Let_def)

lemma scrapeChannelInfo_returns:
  assumes "snd (getBrowser w) = Inr ()"
    and "close w = None"
    and "scrape_try w channelName = (t, Inr r)"
  shows "\<exists>t'. scrapeChannelInfo w channelName = (t', Inr r)"
proof -
  obtain opts where g: "getBrowser w = ([Launch opts], Inr ())"
    using assms(1) getBrowser_trace [of w] by (cases "getBrowser w") auto
  show ?thesis
    by (simp add: scrapeChannelInfo_def g assms(2,3) bnd_def await_def try_catch_def
        try_finally_def unit_of_def)
qed

section \<open>Properties\<close>

subsection \<open>Order of the strategies\<close>

text \<open>
  C1. The strategies run in the order Feed Fetcher, HTML Extractor, Browser
  Scraper, each at most once per resolution call. The code breaks the "at most
  once" part: for a handle that names no channel the feed answers 404, the HTML
  Extractor and the Browser Scraper of the 404 branch fail, the error of the
  Browser Scraper is caught by the outer \<^verbatim>\<open>catch\<close>, and both run a second time.
\<close>

theorem fetchChannelFeed_no_channel_runs_fallbacks_twice:
  "fetchChannelFeed world_no_channel ''nosuchchannel'' =
     ([CallFeed ''nosuchchannel'',
       Fetch ''https://www.youtube.com/feeds/videos.xml?user=nosuchchannel'',
       CallHtml ''nosuchchannel'',
       Fetch ''https://www.youtube.com/@nosuchchannel'',
       CallScrape ''nosuchchannel'',
       Launch (Production ''/snap/bin/chromium''), NewPage, SetUserAgent, SetViewport,
       Goto ''https://www.youtube.com/@nosuchchannel'', Close,
       CallHtml ''nosuchchannel'',
       Fetch ''https://www.youtube.com/@nosuchchannel'',
       CallScrape ''nosuchchannel'',
       Launch (Production ''/snap/bin/chromium''), NewPage, SetUserAgent, SetViewport,
       Goto ''https://www.youtube.com/@nosuchchannel'', Close],
      Inl (Error ''Failed to scrape channel info: Channel not found: nosuchchannel''))"
  by code_simp

subsection \<open>The HTTP handler\<close>

text \<open>
  C6. A request without a \<^verbatim>\<open>channelName\<close> query parameter gets the body
  \<^verbatim>\<open>{ success: false, error: "Channel name is required" }\<close>, and the handler makes
  no call at all: no strategy is entered and nothing is fetched.
\<close>

theorem GET_missing_channelName:
  "map_of searchParams ''channelName'' = None \<Longrightarrow>
   GET w searchParams = ([], FailureBody ''Channel name is required'')"
  by (simp add: GET_def)

theorem GET_missing_channelName_witness:
  "map_of [(''profileId'', ''42'')] ''channelName'' = None \<and>
   GET world_no_channel [(''profileId'', ''42'')] = ([], FailureBody ''Channel name is required'')"
  using GET_missing_channelName [of "[(''profileId'', ''42'')]" world_no_channel] by simp

subsection \<open>Channel-ID extraction from a URL\<close>

text \<open>
  C2, as amended. For a URL \<^verbatim>\<open>pre/channel/seg\<close> followed by nothing or by a
  \<^verbatim>\<open>/\<close> and more text, in which \<^verbatim>\<open>/channel/\<close> does not occur earlier and \<^verbatim>\<open>seg\<close>
  holds no \<^verbatim>\<open>/\<close>: the HTML Extractor (URL from the \<^verbatim>\<open>og:url\<close> meta tag) and the
  Browser Scraper (URL from the rendered document, or the current URL after the
  selector wait failed) succeed with \<^verbatim>\<open>channelId\<close> equal to \<^verbatim>\<open>seg\<close>, the text
  between the first \<^verbatim>\<open>/channel/\<close> and the next \<^verbatim>\<open>/\<close> or the end. No trailing slash
  is kept, but \<^verbatim>\<open>seg\<close> is any text without \<^verbatim>\<open>/\<close>: a query string that follows the
  ID stays in the result. The Feed Fetcher returns the text after the last \<^verbatim>\<open>/\<close>
  of the author URI: \<^verbatim>\<open>seg\<close> when the URI ends with it, the empty string when the
  URI ends with a slash.
\<close>

theorem channel_id_extraction_amended:
  assumes "\<not> js_includes (pre @ ''/channel'') ''/channel/''"
    and "CHR ''/'' \<notin> set seg"
    and "rest = [] \<or> hd rest = CHR ''/''"
  shows
    "(fetch w (''https://www.youtube.com/@'' @ channelName) = Inr resp
        \<and> ok resp
        \<and> body_text resp = Inr html
        \<and> og_url_re html = Some (pre @ ''/channel/'' @ seg @ rest)
      \<longrightarrow> (\<exists>t r. extractChannelIdFromHtml w channelName = (t, Inr r)
                  \<and> channelId (data r) = Str seg))
   \<and> (snd (getBrowser w) = Inr ()
        \<and> newPage w = None \<and> setUserAgent w = None \<and> setViewport w = None
        \<and> goto w (''https://www.youtube.com/@'' @ channelName) = Inr st
        \<and> st \<noteq> Some 404
        \<and> close w = None
        \<and> waitForSelectors (page w (''https://www.youtube.com/@'' @ channelName)) = None
        \<and> evaluate (page w (''https://www.youtube.com/@'' @ channelName)) = Inr d
        \<and> info_url (channelInfo_of d) = pre @ ''/channel/'' @ seg @ rest
      \<longrightarrow> (\<exists>t r. scrapeChannelInfo w channelName = (t, Inr r)
                  \<and> channelId (data r) = Str seg))
   \<and> (snd (getBrowser w) = Inr ()
        \<and> newPage w = None \<and> setUserAgent w = None \<and> setViewport w = None
        \<and> goto w (''https://www.youtube.com/@'' @ channelName) = Inr st
        \<and> st \<noteq> Some 404
        \<and> close w = None
        \<and> waitForSelectors (page w (''https://www.youtube.com/@'' @ channelName)) = Some e
        \<and> pageUrl (page w (''https://www.youtube.com/@'' @ channelName))
            = pre @ ''/channel/'' @ seg @ rest
        \<and> pageTitle (page w (''https://www.youtube.com/@'' @ channelName)) = Inr ttl
      \<longrightarrow> (\<exists>t r. scrapeChannelInfo w channelName = (t, Inr r)
                  \<and> channelId (data r) = Str seg))
   \<and> (fetch w (''https://www.youtube.com/feeds/videos.xml?user='' @ js_replace ''@'' [] channelName)
          = Inr resp
        \<and> ok resp
        \<and> body_text resp = Inr xml
        \<and> parseString w xml = Inr (Obj root)
        \<and> own root ''feed'' = Obj feed
        \<and> own feed ''author'' = Arr (Obj a # as)
        \<and> own a ''name'' = Arr (nm # nms)
        \<and> own a ''uri'' = Arr (Str u # us)
        \<and> own feed ''title'' = Arr (ttl' # ttls)
      \<longrightarrow> (\<exists>t r. fetchChannelFeed w channelName = (t, Inr r)
                  \<and> (u = pre @ ''/channel/'' @ seg \<longrightarrow> channelId (data r) = Str seg)
                  \<and> (u = pre @ ''/channel/'' @ seg @ ''/'' \<longrightarrow> channelId (data r) = Str [])))"
proof (intro conjI impI)
  assume h: "fetch w (''https://www.youtube.com/@'' @ channelName) = Inr resp
        \<and> ok resp
        \<and> body_text resp = Inr html
        \<and> og_url_re html = Some (pre @ ''/channel/'' @ seg @ rest)"
  then have "html_channel_id html = Inr (Str seg)"
    using html_channel_id_og [OF _ assms] by blast
  with h show "\<exists>t r. extractChannelIdFromHtml w channelName = (t, Inr r)
                  \<and> channelId (data r) = Str seg"
    using extractChannelIdFromHtml_og [of w channelName resp html "Str seg"] by blast
next
  assume h: "snd (getBrowser w) = Inr ()
        \<and> newPage w = None \<and> setUserAgent w = None \<and> setViewport w = None
        \<and> goto w (''https://www.youtube.com/@'' @ channelName) = Inr st
        \<and> st \<noteq> Some 404
        \<and> close w = None
        \<and> waitForSelectors (page w (''https://www.youtube.com/@'' @ channelName)) = None
        \<and> evaluate (page w (''https://www.youtube.com/@'' @ channelName)) = Inr d
        \<and> info_url (channelInfo_of d) = pre @ ''/channel/'' @ seg @ rest"
  then have "\<exists>t r. scrape_try w channelName = (t, Inr r) \<and> channelId (data r) = Str seg"
    using scrape_try_evaluated [of w channelName st d "pre @ ''/channel/'' @ seg @ rest" "Str seg"]
      js_includes_append [of pre "''/channel/''" "seg @ rest"]
      channel_segment_cut [OF assms]
    by blast
  with h show "\<exists>t r. scrapeChannelInfo w channelName = (t, Inr r) \<and> channelId (data r) = Str seg"
    using scrapeChannelInfo_returns [of w channelName] by blast
next
  assume h: "snd (getBrowser w) = Inr ()
        \<and> newPage w = None \<and> setUserAgent w = None \<and> setViewport w = None
        \<and> goto w (''https://www.youtube.com/@'' @ channelName) = Inr st
        \<and> st \<noteq> Some 404
        \<and> close w = None
        \<and> waitForSelectors (page w (''https://www.youtube.com/@'' @ channelName)) = Some e
        \<and> pageUrl (page w (''https://www.youtube.com/@'' @ channelName))
            = pre @ ''/channel/'' @ seg @ rest
        \<and> pageTitle (page w (''https://www.youtube.com/@'' @ channelName)) = Inr ttl"
  then have "\<exists>t r. scrape_try w channelName = (t, Inr r) \<and> channelId (data r) = Str seg"
    using scrape_try_timed_out [of w channelName st e "pre @ ''/channel/'' @ seg @ rest" ttl "Str seg"]
      js_includes_append [of pre "''/channel/''" "seg @ rest"]
      channel_segment_cut [OF assms]
    by blast
  with h show "\<exists>t r. scrapeChannelInfo w channelName = (t, Inr r) \<and> channelId (data r) = Str seg"
    using scrapeChannelInfo_returns [of w channelName] by blast
next
  assume h: "fetch w (''https://www.youtube.com/feeds/videos.xml?user='' @ js_replace ''@'' [] channelName)
          = Inr resp
        \<and> ok resp
        \<and> body_text resp = Inr xml
        \<and> parseString w xml = Inr (Obj root)
        \<and> own root ''feed'' = Obj feed
        \<and> own feed ''author'' = Arr (Obj a # as)
        \<and> own a ''name'' = Arr (nm # nms)
        \<and> own a ''uri'' = Arr (Str u # us)
        \<and> own feed ''title'' = Arr (ttl' # ttls)"
  have "\<exists>t r. fetchChannelFeed w channelName = (t, Inr r) \<and> channelId (data r) = last_segment u"
  proof -
    have "fetchChannelFeed w channelName =
           ([CallFeed channelName,
             Fetch (''https://www.youtube.com/feeds/videos.xml?user='' @ js_replace ''@'' [] channelName)],
            Inr \<lparr>success = True,
                 data = \<lparr>author = nm,
                         uri = Str u,
                         title = ttl',
                         thumbnail = entry_thumbnail (opt_elem (own feed ''entry'') 1),
                         viewCount = Some (parseInt10 (to_string
                            (entry_views (opt_elem (own feed ''entry'') 1)))),
                         lastVideoId = entry_videoId (opt_elem (own feed ''entry'') 1),
                         lastVideoDate = entry_published (opt_elem (own feed ''entry'') 1),
                         channelId = last_segment u\<rparr>\<rparr>)"
      using h by (intro fetchChannelFeed_fields [OF _ _ _ _ _ _ _ _ _ refl]) blast+
    then show ?thesis by simp
  qed
  moreover have "last_segment ((pre @ ''/channel'') @ ''/'' @ seg) = Str seg"
    using assms(2) by (rule last_segment_cut)
  moreover have "last_segment ((pre @ ''/channel/'' @ seg) @ ''/'' @ []) = Str []"
    by (rule last_segment_cut) simp
  ultimately show "\<exists>t r. fetchChannelFeed w channelName = (t, Inr r)
                  \<and> (u = pre @ ''/channel/'' @ seg \<longrightarrow> channelId (data r) = Str seg)
                  \<and> (u = pre @ ''/channel/'' @ seg @ ''/'' \<longrightarrow> channelId (data r) = Str [])"
    by auto
qed

theorem channel_id_extraction_amended_witness:
  "og_url_re query_html
     = Some (''https://www.youtube.com'' @ ''/channel/'' @ ''UCW5wxEjGHWNyatgZe-PU_tA?view=0'' @ [])
   \<and> (\<exists>t r. extractChannelIdFromHtml
               (example_world not_found_response Undefined (ok_response query_html)) ''somechannel''
             = (t, Inr r)
          \<and> channelId (data r) = Str ''UCW5wxEjGHWNyatgZe-PU_tA?view=0'')
   \<and> info_url (channelInfo_of featured_document)
       = ''https://www.youtube.com'' @ ''/channel/'' @ ''UCW5wxEjGHWNyatgZe-PU_tA'' @ ''/featured''
   \<and> (\<exists>t r. scrapeChannelInfo (browser_world None featured_page) ''somechannel'' = (t, Inr r)
          \<and> channelId (data r) = Str ''UCW5wxEjGHWNyatgZe-PU_tA'')
   \<and> waitForSelectors redirected_page
       = Some (Error ''Waiting for selector failed: 15000ms exceeded'')
   \<and> pageUrl redirected_page
       = ''https://www.youtube.com'' @ ''/channel/'' @ ''UCW5wxEjGHWNyatgZe-PU_tA'' @ ''/featured''
   \<and> (\<exists>t r. scrapeChannelInfo (browser_world None redirected_page) ''somechannel'' = (t, Inr r)
          \<and> channelId (data r) = Str ''UCW5wxEjGHWNyatgZe-PU_tA'')
   \<and> (\<exists>t r. fetchChannelFeed (feed_world stable_uri (Arr [])) ''@somechannel'' = (t, Inr r)
          \<and> channelId (data r) = Str ''UCW5wxEjGHWNyatgZe-PU_tA'')
   \<and> (\<exists>t r. fetchChannelFeed (feed_world (stable_uri @ ''/'') (Arr [])) ''@somechannel'' = (t, Inr r)
          \<and> channelId (data r) = Str [])"
proof -
  let ?pre = "''https://www.youtube.com''"
  let ?id = "''UCW5wxEjGHWNyatgZe-PU_tA''"
  let ?url = "''https://www.youtube.com/@'' @ ''somechannel''"
  have first: "\<not> js_includes (?pre @ ''/channel'') ''/channel/''"
    by simp
  have seg_q: "CHR ''/'' \<notin> set ''UCW5wxEjGHWNyatgZe-PU_tA?view=0''"
    and seg: "CHR ''/'' \<notin> set ?id"
    by simp_all
  have rest_e: "([] :: string) = [] \<or> hd ([] :: string) = CHR ''/''"
    and rest_f: "''/featured'' = [] \<or> hd ''/featured'' = CHR ''/''"
    by simp_all
  have og: "og_url_re query_html
      = Some (?pre @ ''/channel/'' @ ''UCW5wxEjGHWNyatgZe-PU_tA?view=0'' @ [])"
    by code_simp
  have html: "\<exists>t r. extractChannelIdFromHtml
               (example_world not_found_response Undefined (ok_response query_html)) ''somechannel''
             = (t, Inr r)
          \<and> channelId (data r) = Str ''UCW5wxEjGHWNyatgZe-PU_tA?view=0''"
    using channel_id_extraction_amended [OF first seg_q rest_e,
        where w = "example_world not_found_response Undefined (ok_response query_html)"
          and channelName = "''somechannel''" and resp = "ok_response query_html"
          and html = query_html]
      example_world_fetch(2) [of not_found_response Undefined "ok_response query_html" "''somechannel''"]
      ok_response_facts(1,2) [of query_html] og
    by blast
  have browser: "snd (getBrowser (browser_world None p)) = Inr ()"
    "newPage (browser_world None p) = None"
    "setUserAgent (browser_world None p) = None"
    "setViewport (browser_world None p) = None"
    "goto (browser_world None p) ?url = Inr (Some 200)"
    "close (browser_world None p) = None"
    "page (browser_world None p) ?url = p" for p
    by (simp_all add: browser_world_def getBrowser_def await_def unit_of_def)
  have st: "Some (200 :: nat) \<noteq> Some 404"
    by simp
  have doc: "waitForSelectors featured_page = None"
    "evaluate featured_page = Inr featured_document"
    "info_url (channelInfo_of featured_document) = ?pre @ ''/channel/'' @ ?id @ ''/featured''"
    by (simp_all add: featured_page_def featured_document_def channelInfo_of_def attr_or_str_def)
  have evaluated: "\<exists>t r. scrapeChannelInfo (browser_world None featured_page) ''somechannel'' = (t, Inr r)
          \<and> channelId (data r) = Str ?id"
    using channel_id_extraction_amended [OF first seg rest_f,
        where w = "browser_world None featured_page" and channelName = "''somechannel''"
          and st = "Some 200" and d = featured_document]
      browser [of featured_page] st doc
    by simp
  have red: "waitForSelectors redirected_page
               = Some (Error ''Waiting for selector failed: 15000ms exceeded'')"
    "pageUrl redirected_page = ?pre @ ''/channel/'' @ ?id @ ''/featured''"
    "pageTitle redirected_page = Inr ''Some Channel - YouTube''"
    by (simp_all add: redirected_page_def)
  have timed_out: "\<exists>t r. scrapeChannelInfo (browser_world None redirected_page) ''somechannel'' = (t, Inr r)
          \<and> channelId (data r) = Str ?id"
    using channel_id_extraction_amended [OF first seg rest_f,
        where w = "browser_world None redirected_page" and channelName = "''somechannel''"
          and st = "Some 200" and e = "Error ''Waiting for selector failed: 15000ms exceeded''"
          and ttl = "''Some Channel - YouTube''"]
      browser [of redirected_page] st red
    by simp
  have uri: "stable_uri = ?pre @ ''/channel/'' @ ?id"
    by (simp add: stable_uri_def)
  have feed: "\<exists>t r. fetchChannelFeed (feed_world u (Arr [])) ''@somechannel'' = (t, Inr r)
         \<and> (u = ?pre @ ''/channel/'' @ ?id \<longrightarrow> channelId (data r) = Str ?id)
         \<and> (u = ?pre @ ''/channel/'' @ ?id @ ''/'' \<longrightarrow> channelId (data r) = Str [])" for u
    by (rule channel_id_extraction_amended [OF first seg rest_e,
          THEN conjunct2, THEN conjunct2, THEN conjunct2, THEN mp])
      (intro conjI, rule feed_world_fetch, rule ok_response_facts(1), rule ok_response_facts(2),
        rule feed_world_parse, rule example_feed_own(1), rule example_feed_own(2),
        rule example_feed_own(3), rule example_feed_own(4), rule example_feed_own(5))
  have feed1: "\<exists>t r. fetchChannelFeed (feed_world stable_uri (Arr [])) ''@somechannel'' = (t, Inr r)
          \<and> channelId (data r) = Str ?id"
    using feed [of stable_uri] uri by blast
  have feed2: "\<exists>t r. fetchChannelFeed (feed_world (stable_uri @ ''/'') (Arr [])) ''@somechannel'' = (t, Inr r)
          \<and> channelId (data r) = Str []"
    using feed [of "stable_uri @ ''/''"] uri by auto
  show ?thesis
    using og html doc(3) evaluated red(1,2) timed_out feed1 feed2 by blast
qed

theorem channel_id_extraction_counterexample:
  "map_sum id (\<lambda>r. channelId (data r))
     (snd (extractChannelIdFromHtml
             (example_world not_found_response Undefined (ok_response query_html)) ''somechannel''))
     = Inr (Str ''UCW5wxEjGHWNyatgZe-PU_tA?view=0'')
   \<and> map_sum id (\<lambda>r. channelId (data r))
       (snd (scrapeChannelInfo (browser_world None query_page) ''somechannel''))
     = Inr (Str ''UCW5wxEjGHWNyatgZe-PU_tA?view=0'')
   \<and> map_sum id (\<lambda>r. channelId (data r))
       (snd (fetchChannelFeed
               (feed_world ''https://www.youtube.com/channel/UCW5wxEjGHWNyatgZe-PU_tA?view=0'' (Arr []))
               ''@somechannel''))
     = Inr (Str ''UCW5wxEjGHWNyatgZe-PU_tA?view=0'')
   \<and> map_sum id (\<lambda>r. channelId (data r))
       (snd (fetchChannelFeed
               (feed_world ''https://www.youtube.com/channel/UCW5wxEjGHWNyatgZe-PU_tA/'' (Arr []))
               ''@somechannel''))
     = Inr (Str [])
   \<and> Str ''UCW5wxEjGHWNyatgZe-PU_tA?view=0'' \<noteq> Str ''UCW5wxEjGHWNyatgZe-PU_tA''
   \<and> Str [] \<noteq> Str ''UCW5wxEjGHWNyatgZe-PU_tA''"
  by code_simp

subsection \<open>The Feed Fetcher's optional fields\<close>

text \<open>
  C10. A feed that is fetched with a success status and parses with the author
  name, the author URI and the title present makes the Feed Fetcher succeed also
  when it has fewer than two entries (no entry element, an empty entry array, or
  one entry): \<^verbatim>\<open>thumbnail\<close> is \<^verbatim>\<open>null\<close>, \<^verbatim>\<open>viewCount\<close> is 0, \<^verbatim>\<open>lastVideoId\<close> and
  \<^verbatim>\<open>lastVideoDate\<close> are \<^verbatim>\<open>undefined\<close>, and the only call made is the feed request:
  no fallback strategy is entered.
\<close>

theorem feed_with_fewer_than_two_entries:
  assumes "fetch w (''https://www.youtube.com/feeds/videos.xml?user='' @ js_replace ''@'' [] channelName)
             = Inr resp"
    and "ok resp"
    and "body_text resp = Inr xml"
    and "parseString w xml = Inr (Obj root)"
    and "own root ''feed'' = Obj feed"
    and "own feed ''author'' = Arr (Obj a # as)"
    and "own a ''name'' = Arr (nm # nms)"
    and "own a ''uri'' = Arr (Str u # us)"
    and "own feed ''title'' = Arr (ttl # ttls)"
    and "own feed ''entry'' = Undefined \<or> own feed ''entry'' = Arr []
         \<or> own feed ''entry'' = Arr [e]"
  shows "fetchChannelFeed w channelName =
           ([CallFeed channelName,
             Fetch (''https://www.youtube.com/feeds/videos.xml?user='' @ js_replace ''@'' [] channelName)],
            Inr \<lparr>success = True,
                 data = \<lparr>author = nm,
                         uri = Str u,
                         title = ttl,
                         thumbnail = Null,
                         viewCount = Some (Num 0),
                         lastVideoId = Undefined,
                         lastVideoDate = Undefined,
                         channelId = last_segment u\<rparr>\<rparr>)"
proof -
  have latest: "opt_elem (own feed ''entry'') 1 = Undefined"
    using assms(10) by (rule short_entry_list)
  show ?thesis
    using fetchChannelFeed_fields [OF assms(1-9) latest]
    by (simp add: entry_fields_Undefined parseInt10_zero)
qed

theorem feed_with_fewer_than_two_entries_witness:
  "fetch (feed_world stable_uri (Arr [example_entry ''only'' (community_with_views ''7'')]))
      (''https://www.youtube.com/feeds/videos.xml?user='' @ js_replace ''@'' [] ''@somechannel'')
     = Inr (ok_response ''<feed/>'')
   \<and> ok (ok_response ''<feed/>'')
   \<and> body_text (ok_response ''<feed/>'') = Inr ''<feed/>''
   \<and> parseString (feed_world stable_uri (Arr [example_entry ''only'' (community_with_views ''7'')]))
         ''<feed/>''
       = Inr (Obj [(''feed'', Obj (example_feed stable_uri
                (Arr [example_entry ''only'' (community_with_views ''7'')])))])
   \<and> fetchChannelFeed
         (feed_world stable_uri (Arr [example_entry ''only'' (community_with_views ''7'')]))
         ''@somechannel''
       = ([CallFeed ''@somechannel'',
           Fetch ''https://www.youtube.com/feeds/videos.xml?user=somechannel''],
          Inr \<lparr>success = True,
               data = \<lparr>author = Str ''Some Channel'',
                       uri = Str stable_uri,
                       title = Str ''Some Channel'',
                       thumbnail = Null,
                       viewCount = Some (Num 0),
                       lastVideoId = Undefined,
                       lastVideoDate = Undefined,
                       channelId = Str ''UCW5wxEjGHWNyatgZe-PU_tA''\<rparr>\<rparr>)"
proof -
  let ?entries = "Arr [example_entry ''only'' (community_with_views ''7'')]"
  let ?w = "feed_world stable_uri ?entries"
  let ?feed = "example_feed stable_uri ?entries"
  have h1: "fetch ?w (''https://www.youtube.com/feeds/videos.xml?user='' @ js_replace ''@'' [] ''@somechannel'')
              = Inr (ok_response ''<feed/>'')"
    by (simp add: feed_world_def example_world_def)
  have h2: "ok (ok_response ''<feed/>'')"
    by (simp add: ok_def ok_response_def)
  have h3: "body_text (ok_response ''<feed/>'') = Inr ''<feed/>''"
    by (simp add: ok_response_def)
  have h4: "parseString ?w ''<feed/>'' = Inr (Obj [(''feed'', Obj ?feed)])"
    by (simp add: feed_world_def example_world_def)
  have h5: "own [(''feed'', Obj ?feed)] ''feed'' = Obj ?feed"
    by (simp add: own_def)
  have h6: "own ?feed ''author'' = Arr (Obj (example_author stable_uri) # [])"
    by (simp add: own_def example_feed_def)
  have h7: "own (example_author stable_uri) ''name'' = Arr (Str ''Some Channel'' # [])"
    by (simp add: own_def example_author_def)
  have h8: "own (example_author stable_uri) ''uri'' = Arr (Str stable_uri # [])"
    by (simp add: own_def example_author_def)
  have h9: "own ?feed ''title'' = Arr (Str ''Some Channel'' # [])"
    by (simp add: own_def example_feed_def)
  have h10: "own ?feed ''entry'' = Undefined \<or> own ?feed ''entry'' = Arr []
             \<or> own ?feed ''entry'' = Arr [example_entry ''only'' (community_with_views ''7'')]"
    by (simp add: own_def example_feed_def)
  have seg: "last_segment stable_uri = Str ''UCW5wxEjGHWNyatgZe-PU_tA''"
    by code_simp
  have js: "js_replace ''@'' [] ''@somechannel'' = ''somechannel''"
    by code_simp
  show ?thesis
    using h1 h2 h3 h4
      feed_with_fewer_than_two_entries [OF h1 h2 h3 h4 h5 h6 h7 h8 h9 h10]
    by (simp add: seg js)
qed

text \<open>
  C5. For every feed that is fetched and parsed with the required fields
  present and that has at least two entries, \<^verbatim>\<open>thumbnail\<close>, \<^verbatim>\<open>viewCount\<close>,
  \<^verbatim>\<open>lastVideoId\<close> and \<^verbatim>\<open>lastVideoDate\<close> are read from the second entry (index 1);
  the first entry does not occur in the result.
\<close>

theorem feed_uses_second_entry:
  assumes "fetch w (''https://www.youtube.com/feeds/videos.xml?user='' @ js_replace ''@'' [] channelName)
             = Inr resp"
    and "ok resp"
    and "body_text resp = Inr xml"
    and "parseString w xml = Inr (Obj root)"
    and "own root ''feed'' = Obj feed"
    and "own feed ''author'' = Arr (Obj a # as)"
    and "own a ''name'' = Arr (nm # nms)"
    and "own a ''uri'' = Arr (Str u # us)"
    and "own feed ''title'' = Arr (ttl # ttls)"
    and "own feed ''entry'' = Arr (e0 # e1 # es)"
  shows "fetchChannelFeed w channelName =
           ([CallFeed channelName,
             Fetch (''https://www.youtube.com/feeds/videos.xml?user='' @ js_replace ''@'' [] channelName)],
            Inr \<lparr>success = True,
                 data = \<lparr>author = nm,
                         uri = Str u,
                         title = ttl,
                         thumbnail = entry_thumbnail e1,
                         viewCount = Some (parseInt10 (to_string (entry_views e1))),
                         lastVideoId = entry_videoId e1,
                         lastVideoDate = entry_published e1,
                         channelId = last_segment u\<rparr>\<rparr>)"
proof -
  have latest: "opt_elem (own feed ''entry'') 1 = e1"
    using assms(10) by (simp add: opt_elem_def)
  show ?thesis
    by (rule fetchChannelFeed_fields [OF assms(1-9) latest])
qed

theorem feed_uses_second_entry_witness:
  "fetch (feed_world stable_uri
            (Arr [example_entry ''first'' (community_with_views ''111''),
                  example_entry ''second'' (community_with_views ''12345'')]))
      (''https://www.youtube.com/feeds/videos.xml?user='' @ js_replace ''@'' [] ''@somechannel'')
     = Inr (ok_response ''<feed/>'')
   \<and> ok (ok_response ''<feed/>'')
   \<and> body_text (ok_response ''<feed/>'') = Inr ''<feed/>''
   \<and> fetchChannelFeed
         (feed_world stable_uri
            (Arr [example_entry ''first'' (community_with_views ''111''),
                  example_entry ''second'' (community_with_views ''12345'')]))
         ''@somechannel''
       = ([CallFeed ''@somechannel'',
           Fetch ''https://www.youtube.com/feeds/videos.xml?user=somechannel''],
          Inr \<lparr>success = True,
               data = \<lparr>author = Str ''Some Channel'',
                       uri = Str stable_uri,
                       title = Str ''Some Channel'',
                       thumbnail = Str ''https://i.ytimg.com/vi/second/hqdefault.jpg'',
                       viewCount = Some (Num 12345),
                       lastVideoId = Str ''second'',
                       lastVideoDate = Str ''2024-01-01T00:00:00+00:00'',
                       channelId = Str ''UCW5wxEjGHWNyatgZe-PU_tA''\<rparr>\<rparr>)"
proof -
  let ?e0 = "example_entry ''first'' (community_with_views ''111'')"
  let ?e1 = "example_entry ''second'' (community_with_views ''12345'')"
  let ?w = "feed_world stable_uri (Arr [?e0, ?e1])"
  let ?feed = "example_feed stable_uri (Arr [?e0, ?e1])"
  have h1: "fetch ?w (''https://www.youtube.com/feeds/videos.xml?user='' @ js_replace ''@'' [] ''@somechannel'')
              = Inr (ok_response ''<feed/>'')"
    by (simp add: feed_world_def example_world_def)
  have h2: "ok (ok_response ''<feed/>'')"
    by (simp add: ok_def ok_response_def)
  have h3: "body_text (ok_response ''<feed/>'') = Inr ''<feed/>''"
    by (simp add: ok_response_def)
  have h4: "parseString ?w ''<feed/>'' = Inr (Obj [(''feed'', Obj ?feed)])"
    by (simp add: feed_world_def example_world_def)
  have h5: "own [(''feed'', Obj ?feed)] ''feed'' = Obj ?feed"
    by (simp add: own_def)
  have h6: "own ?feed ''author'' = Arr (Obj (example_author stable_uri) # [])"
    by (simp add: own_def example_feed_def)
  have h7: "own (example_author stable_uri) ''name'' = Arr (Str ''Some Channel'' # [])"
    by (simp add: own_def example_author_def)
  have h8: "own (example_author stable_uri) ''uri'' = Arr (Str stable_uri # [])"
    by (simp add: own_def example_author_def)
  have h9: "own ?feed ''title'' = Arr (Str ''Some Channel'' # [])"
    by (simp add: own_def example_feed_def)
  have h10: "own ?feed ''entry'' = Arr (?e0 # ?e1 # [])"
    by (simp add: own_def example_feed_def)
  have seg: "last_segment stable_uri = Str ''UCW5wxEjGHWNyatgZe-PU_tA''"
    by code_simp
  have js: "js_replace ''@'' [] ''@somechannel'' = ''somechannel''"
    by code_simp
  have e1: "entry_thumbnail ?e1 = Str ''https://i.ytimg.com/vi/second/hqdefault.jpg''"
    "parseInt10 (to_string (entry_views ?e1)) = Num 12345"
    "entry_videoId ?e1 = Str ''second''"
    "entry_published ?e1 = Str ''2024-01-01T00:00:00+00:00''"
    by code_simp+
  show ?thesis
    using h1 h2 h3 feed_uses_second_entry [OF h1 h2 h3 h4 h5 h6 h7 h8 h9 h10]
    by (simp add: seg js e1)
qed

subsection \<open>View count\<close>

text \<open>
  C3, as amended. In the Feed Fetcher the view count is \<^verbatim>\<open>parseInt\<close> of the
  \<^verbatim>\<open>views\<close> attribute of the second entry's statistics element: \<^verbatim>\<open>views="12345"\<close>
  gives 12345, an absent statistics fragment gives 0, and a value that is present
  but does not start with a digit, a sign or white space gives \<^verbatim>\<open>NaN\<close>, not 0.
\<close>

theorem view_count_amended:
  assumes "fetch w (''https://www.youtube.com/feeds/videos.xml?user='' @ js_replace ''@'' [] channelName)
             = Inr resp"
    and "ok resp"
    and "body_text resp = Inr xml"
    and "parseString w xml = Inr (Obj root)"
    and "own root ''feed'' = Obj feed"
    and "own feed ''author'' = Arr (Obj a # as)"
    and "own a ''name'' = Arr (nm # nms)"
    and "own a ''uri'' = Arr (Str u # us)"
    and "own feed ''title'' = Arr (ttl # ttls)"
    and "own feed ''entry'' = Arr (e0 # e1 # es)"
  shows "\<exists>t r. fetchChannelFeed w channelName = (t, Inr r)
           \<and> (statistics_views e1 = Str ''12345'' \<longrightarrow> viewCount (data r) = Some (Num 12345))
           \<and> (statistics_views e1 = Undefined \<longrightarrow> viewCount (data r) = Some (Num 0))
           \<and> (\<forall>v. statistics_views e1 = Str v \<and> v \<noteq> [] \<and> \<not> is_digit (hd v)
                    \<and> \<not> js_space (hd v) \<and> hd v \<noteq> CHR ''+'' \<and> hd v \<noteq> CHR ''-''
                 \<longrightarrow> viewCount (data r) = Some NaN)"
proof -
  have latest: "opt_elem (own feed ''entry'') 1 = e1"
    using assms(10) by (simp add: opt_elem_def)
  have "\<exists>t r. fetchChannelFeed w channelName = (t, Inr r)
          \<and> viewCount (data r) = Some (parseInt10 (to_string (entry_views e1)))"
    unfolding fetchChannelFeed_fields [OF assms(1-9) latest] by simp
  then obtain t r where run: "fetchChannelFeed w channelName = (t, Inr r)"
    and vc: "viewCount (data r) = Some (parseInt10 (to_string (entry_views e1)))"
    by blast
  have "statistics_views e1 = Str ''12345'' \<longrightarrow> viewCount (data r) = Some (Num 12345)"
    by (simp add: vc entry_views_cases parseInt10_12345)
  moreover have "statistics_views e1 = Undefined \<longrightarrow> viewCount (data r) = Some (Num 0)"
    by (simp add: vc entry_views_cases parseInt10_zero)
  moreover have "\<forall>v. statistics_views e1 = Str v \<and> v \<noteq> [] \<and> \<not> is_digit (hd v)
                    \<and> \<not> js_space (hd v) \<and> hd v \<noteq> CHR ''+'' \<and> hd v \<noteq> CHR ''-''
                 \<longrightarrow> viewCount (data r) = Some NaN"
    by (simp add: vc entry_views_cases parseInt10_NaN)
  ultimately show ?thesis using run by blast
qed

theorem view_count_amended_witness:
  "statistics_views (example_entry ''second'' (community_with_views ''12345'')) = Str ''12345''
   \<and> (\<exists>t r. fetchChannelFeed
               (feed_world stable_uri
                  (Arr [example_entry ''first'' (community_with_views ''111''),
                        example_entry ''second'' (community_with_views ''12345'')]))
               ''@somechannel'' = (t, Inr r)
            \<and> viewCount (data r) = Some (Num 12345))
   \<and> statistics_views (example_entry ''second'' community_without_statistics) = Undefined
   \<and> (\<exists>t r. fetchChannelFeed
               (feed_world stable_uri
                  (Arr [example_entry ''first'' (community_with_views ''111''),
                        example_entry ''second'' community_without_statistics]))
               ''@somechannel'' = (t, Inr r)
            \<and> viewCount (data r) = Some (Num 0))
   \<and> statistics_views (example_entry ''second'' (community_with_views ''abc'')) = Str ''abc''
   \<and> (\<exists>t r. fetchChannelFeed
               (feed_world stable_uri
                  (Arr [example_entry ''first'' (community_with_views ''111''),
                        example_entry ''second'' (community_with_views ''abc'')]))
               ''@somechannel'' = (t, Inr r)
            \<and> viewCount (data r) = Some NaN)"
proof -
  let ?e0 = "example_entry ''first'' (community_with_views ''111'')"
  have abc: "''abc'' \<noteq> [] \<and> \<not> is_digit (hd ''abc'') \<and> \<not> js_space (hd ''abc'')
             \<and> hd ''abc'' \<noteq> CHR ''+'' \<and> hd ''abc'' \<noteq> CHR ''-''"
    by (simp add: is_digit_def js_space_def)
  have own_entry: "own (example_feed stable_uri (Arr [?e0, e])) ''entry'' = Arr (?e0 # e # [])" for e
    by (simp add: example_feed_own)
  have inst: "\<exists>t r. fetchChannelFeed (feed_world stable_uri (Arr [?e0, e])) ''@somechannel'' = (t, Inr r)
           \<and> (statistics_views e = Str ''12345'' \<longrightarrow> viewCount (data r) = Some (Num 12345))
           \<and> (statistics_views e = Undefined \<longrightarrow> viewCount (data r) = Some (Num 0))
           \<and> (\<forall>v. statistics_views e = Str v \<and> v \<noteq> [] \<and> \<not> is_digit (hd v)
                    \<and> \<not> js_space (hd v) \<and> hd v \<noteq> CHR ''+'' \<and> hd v \<noteq> CHR ''-''
                 \<longrightarrow> viewCount (data r) = Some NaN)" for e
    by (rule view_count_amended [OF feed_world_fetch ok_response_facts(1,2) feed_world_parse
          example_feed_own(1-5) own_entry])
  show ?thesis
    using inst [of "example_entry ''second'' (community_with_views ''12345'')"]
      inst [of "example_entry ''second'' community_without_statistics"]
      inst [of "example_entry ''second'' (community_with_views ''abc'')"]
      abc
    by (simp add: example_entry_views) blast
qed

theorem view_count_counterexample:
  "statistics_views (example_entry ''second'' (community_with_views ''abc'')) = Str ''abc''
   \<and> fetchChannelFeed
        (feed_world stable_uri
           (Arr [example_entry ''first'' (community_with_views ''111''),
                 example_entry ''second'' (community_with_views ''abc'')]))
        ''@somechannel''
      = ([CallFeed ''@somechannel'',
          Fetch ''https://www.youtube.com/feeds/videos.xml?user=somechannel''],
         Inr \<lparr>success = True,
              data = \<lparr>author = Str ''Some Channel'',
                      uri = Str ''https://www.youtube.com/channel/UCW5wxEjGHWNyatgZe-PU_tA'',
                      title = Str ''Some Channel'',
                      thumbnail = Str ''https://i.ytimg.com/vi/second/hqdefault.jpg'',
                      viewCount = Some NaN,
                      lastVideoId = Str ''second'',
                      lastVideoDate = Str ''2024-01-01T00:00:00+00:00'',
                      channelId = Str ''UCW5wxEjGHWNyatgZe-PU_tA''\<rparr>\<rparr>)
   \<and> NaN \<noteq> Num 0"
  by code_simp

subsection \<open>Title of the HTML Extractor\<close>

text \<open>
  C4, as amended. The HTML Extractor removes the first occurrence of
  \<^verbatim>\<open>" - YouTube"\<close> from the matched title. For a matched title of the form
  \<^verbatim>\<open><name> - YouTube\<close> whose \<^verbatim>\<open><name>\<close> does not itself contain \<^verbatim>\<open>" - YouTube"\<close> the
  extracted title is \<^verbatim>\<open><name>\<close> (so \<^verbatim>\<open>"My Channel - YouTube"\<close> gives
  \<^verbatim>\<open>"My Channel"\<close>); if no title pattern matches, the title is the input handle.
\<close>

theorem html_title_amended:
  assumes "extractChannelIdFromHtml w channelName = (t, Inr r)"
    and "fetch w (''https://www.youtube.com/@'' @ channelName) = Inr resp"
    and "body_text resp = Inr html"
  shows "(first_pattern titlePatterns html = Some (name @ '' - YouTube'')
            \<and> \<not> js_includes name '' - YouTube''
          \<longrightarrow> title (data r) = Str name)
       \<and> (\<forall>m. first_pattern titlePatterns html = Some m
            \<longrightarrow> title (data r) = Str (js_replace '' - YouTube'' [] m))
       \<and> (first_pattern titlePatterns html = None \<longrightarrow> title (data r) = Str channelName)"
proof -
  from assms have "title (data r) = Str (html_title html channelName)"
    by (auto elim!: extractChannelIdFromHtml_Inr)
  then show ?thesis
    by (auto simp: html_title_def js_replace_suffix)
qed

theorem html_title_amended_witness:
  "first_pattern titlePatterns my_channel_html = Some (''My Channel'' @ '' - YouTube'')
   \<and> \<not> js_includes ''My Channel'' '' - YouTube''
   \<and> title (data (projr (snd (extractChannelIdFromHtml
              (example_world not_found_response Undefined (ok_response my_channel_html))
              ''mychannel'')))) = Str ''My Channel''
   \<and> first_pattern titlePatterns untitled_html = None
   \<and> title (data (projr (snd (extractChannelIdFromHtml
              (example_world not_found_response Undefined (ok_response untitled_html))
              ''mychannel'')))) = Str ''mychannel''"
proof -
  let ?w = "\<lambda>html. example_world not_found_response Undefined (ok_response html)"
  have run1: "extractChannelIdFromHtml (?w my_channel_html) ''mychannel''
      = (fst (extractChannelIdFromHtml (?w my_channel_html) ''mychannel''),
         Inr (projr (snd (extractChannelIdFromHtml (?w my_channel_html) ''mychannel''))))"
    by code_simp
  have run2: "extractChannelIdFromHtml (?w untitled_html) ''mychannel''
      = (fst (extractChannelIdFromHtml (?w untitled_html) ''mychannel''),
         Inr (projr (snd (extractChannelIdFromHtml (?w untitled_html) ''mychannel''))))"
    by code_simp
  have p1: "first_pattern titlePatterns my_channel_html = Some (''My Channel'' @ '' - YouTube'')"
    by code_simp
  have n1: "\<not> js_includes ''My Channel'' '' - YouTube''"
    by code_simp
  have p2: "first_pattern titlePatterns untitled_html = None"
    by code_simp
  show ?thesis
    using p1 n1 p2
      html_title_amended [OF run1 example_world_fetch(2) ok_response_facts(2),
        of "''My Channel''"]
      html_title_amended [OF run2 example_world_fetch(2) ok_response_facts(2)]
    by blast
qed

theorem html_title_counterexample:
  "first_pattern titlePatterns odd_title_html = Some (''Growing - YouTube Tips'' @ '' - YouTube'')
   \<and> extractChannelIdFromHtml
        (example_world not_found_response Undefined (ok_response odd_title_html)) ''growing''
      = ([CallHtml ''growing'', Fetch ''https://www.youtube.com/@growing''],
         Inr \<lparr>success = True,
              data = \<lparr>author = Str ''Growing Tips - YouTube'',
                      uri = Str ''https://www.youtube.com/channel/UCW5wxEjGHWNyatgZe-PU_tA'',
                      title = Str ''Growing Tips - YouTube'',
                      thumbnail = Null,
                      viewCount = None,
                      lastVideoId = Null,
                      lastVideoDate = Null,
                      channelId = Str ''UCW5wxEjGHWNyatgZe-PU_tA''\<rparr>\<rparr>)
   \<and> ''Growing Tips - YouTube'' \<noteq> ''Growing - YouTube Tips''"
  by code_simp

subsection \<open>Release of the browser\<close>

text \<open>
  C7. In the Browser Scraper, once the browser is launched, \<^verbatim>\<open>browser.close()\<close>
  is called exactly once, as the last action of the scrape, whatever the
  operations on the page do (return, throw, time out); when the launch itself
  throws, the scrape ends with that error, having made no call but the launch.
\<close>

theorem browser_closed_on_every_path:
  "(snd (getBrowser w) = Inr ()
      \<longrightarrow> (\<exists>t. fst (scrapeChannelInfo w channelName) = t @ [Close] \<and> Close \<notin> set t))
   \<and> (snd (getBrowser w) = Inl e
      \<longrightarrow> (\<exists>opts. scrapeChannelInfo w channelName
                    = ([CallScrape channelName, Launch opts], Inl e)))"
  using scrapeChannelInfo_launched [of w channelName]
    scrapeChannelInfo_launch_failed [of w e channelName]
  by blast

theorem browser_closed_on_every_path_witness:
  "snd (getBrowser (browser_world None rendered_page)) = Inr ()
   \<and> (\<exists>t. fst (scrapeChannelInfo (browser_world None rendered_page) ''somechannel'') = t @ [Close]
          \<and> Close \<notin> set t)
   \<and> (\<exists>r. snd (scrapeChannelInfo (browser_world None rendered_page) ''somechannel'') = Inr r)
   \<and> snd (getBrowser (browser_world None timeout_page)) = Inr ()
   \<and> (\<exists>t. fst (scrapeChannelInfo (browser_world None timeout_page) ''somechannel'') = t @ [Close]
          \<and> Close \<notin> set t)
   \<and> snd (scrapeChannelInfo (browser_world None timeout_page) ''somechannel'')
       = Inl (Error ''Failed to scrape channel info: Waiting for selector failed: 15000ms exceeded'')
   \<and> snd (getBrowser (browser_world (Some (Error ''Failed to launch the browser process'')) blank_page))
       = Inl (Error ''Failed to launch the browser process'')
   \<and> (\<exists>opts. scrapeChannelInfo
                (browser_world (Some (Error ''Failed to launch the browser process'')) blank_page)
                ''somechannel''
              = ([CallScrape ''somechannel'', Launch opts],
                 Inl (Error ''Failed to launch the browser process'')))"
proof -
  have l1: "snd (getBrowser (browser_world None rendered_page)) = Inr ()"
    by code_simp
  have l2: "snd (getBrowser (browser_world None timeout_page)) = Inr ()"
    by code_simp
  have l3: "snd (getBrowser (browser_world (Some (Error ''Failed to launch the browser process'')) blank_page))
              = Inl (Error ''Failed to launch the browser process'')"
    by code_simp
  have r1: "snd (scrapeChannelInfo (browser_world None rendered_page) ''somechannel'')
      = Inr \<lparr>success = True,
             data = \<lparr>author = Str ''Some Channel'',
                     uri = Str ''https://www.youtube.com/channel/UCW5wxEjGHWNyatgZe-PU_tA'',
                     title = Str ''Some Channel'',
                     thumbnail = Null,
                     viewCount = Some (Num 0),
                     lastVideoId = Null,
                     lastVideoDate = Null,
                     channelId = Str ''UCW5wxEjGHWNyatgZe-PU_tA''\<rparr>\<rparr>"
    by code_simp
  have r2: "snd (scrapeChannelInfo (browser_world None timeout_page) ''somechannel'')
       = Inl (Error ''Failed to scrape channel info: Waiting for selector failed: 15000ms exceeded'')"
    by code_simp
  show ?thesis
    using l1 l2 l3 r1 r2
      browser_closed_on_every_path
        [where w = "browser_world None rendered_page" and channelName = "''somechannel''"]
      browser_closed_on_every_path
        [where w = "browser_world None timeout_page" and channelName = "''somechannel''"]
      browser_closed_on_every_path
        [where w = "browser_world (Some (Error ''Failed to launch the browser process'')) blank_page"
           and e = "Error ''Failed to launch the browser process''"
           and channelName = "''somechannel''"]
    by blast
qed

subsection \<open>Shape of the channel ID\<close>




subsection \<open>The handle handed to the fallbacks\<close>

text \<open>
  C9. The handle the fallback strategies get depends on how the feed attempt
  failed: the handle without its first \<^verbatim>\<open>@\<close> when the feed request answers 404,
  the handle unchanged when the feed attempt fails in any other way. The code
  breaks the 404 half. For the handle \<^verbatim>\<open>@nosuchchannel\<close>, which names no channel,
  the feed answers 404 and the HTML Extractor and the Browser Scraper run with
  \<^verbatim>\<open>nosuchchannel\<close>; both fail, the outer \<^verbatim>\<open>catch\<close> takes the error of the Browser
  Scraper, and both run again with \<^verbatim>\<open>@nosuchchannel\<close>, fetching
  \<^verbatim>\<open>https://www.youtube.com/@@nosuchchannel\<close>. When the feed answers 500 instead,
  both run once, with \<^verbatim>\<open>@nosuchchannel\<close>.
\<close>

theorem fetchChannelFeed_not_found_reruns_with_original_handle:
  "fetch world_no_channel
      (''https://www.youtube.com/feeds/videos.xml?user='' @ js_replace ''@'' [] ''@nosuchchannel'')
     = Inr not_found_response
   \<and> status not_found_response = 404
   \<and> fetchChannelFeed world_no_channel ''@nosuchchannel'' =
       ([CallFeed ''@nosuchchannel'',
         Fetch ''https://www.youtube.com/feeds/videos.xml?user=nosuchchannel'',
         CallHtml ''nosuchchannel'',
         Fetch ''https://www.youtube.com/@nosuchchannel'',
         CallScrape ''nosuchchannel'',
         Launch (Production ''/snap/bin/chromium''), NewPage, SetUserAgent, SetViewport,
         Goto ''https://www.youtube.com/@nosuchchannel'', Close,
         CallHtml ''@nosuchchannel'',
         Fetch ''https://www.youtube.com/@@nosuchchannel'',
         CallScrape ''@nosuchchannel'',
         Launch (Production ''/snap/bin/chromium''), NewPage, SetUserAgent, SetViewport,
         Goto ''https://www.youtube.com/@@nosuchchannel'', Close],
        Inl (Error ''Failed to scrape channel info: Channel not found: @nosuchchannel''))
   \<and> fetch world_feed_error
        (''https://www.youtube.com/feeds/videos.xml?user='' @ js_replace ''@'' [] ''@nosuchchannel'')
       = Inr server_error_response
   \<and> status server_error_response = 500
   \<and> fetchChannelFeed world_feed_error ''@nosuchchannel'' =
       ([CallFeed ''@nosuchchannel'',
         Fetch ''https://www.youtube.com/feeds/videos.xml?user=nosuchchannel'',
         CallHtml ''@nosuchchannel'',
         Fetch ''https://www.youtube.com/@@nosuchchannel'',
         CallScrape ''@nosuchchannel'',
         Launch (Production ''/snap/bin/chromium''), NewPage, SetUserAgent, SetViewport,
         Goto ''https://www.youtube.com/@@nosuchchannel'', Close],
        Inl (Error ''Failed to scrape channel info: Channel not found: @nosuchchannel''))"
  by code_simp

end
